theory Spec2Isabelle
  imports Complex_Main "HOL-Library.Word"
begin

section \<open>Python values and dictionaries\<close>

text \<open>
  The values that travel through \<^verbatim>\<open>prepare_misp_object.py\<close>: \<^verbatim>\<open>None\<close>, JSON booleans,
  integers, floats (entropy), text and raw bytes (the \<^verbatim>\<open>BytesIO\<close> payload of a sample).
  Floats are carried as real numbers; rounding is not modelled.
\<close>

type_synonym byte = "8 word"

datatype pyval =
    PyNone
  | PyBool bool
  | PyInt int
  | PyFloat real
  | PyStr string
  | PyBytes "byte list"

text \<open>
  An inner dictionary \<^verbatim>\<open>{'value': ..., 'data': ...}\<close> is a finite map from keys to values.
  \<^verbatim>\<open>d.get(k)\<close> answers \<^verbatim>\<open>None\<close> for a missing key, so a missing key and a key bound to
  \<^verbatim>\<open>None\<close> are told apart by the map and not by \<open>py_get\<close>.
\<close>

type_synonym pydict = "string \<rightharpoonup> pyval"

definition py_get :: "pydict \<Rightarrow> string \<Rightarrow> pyval" where
  "py_get d k = (case d k of None \<Rightarrow> PyNone | Some v \<Rightarrow> v)"

text \<open>
  The outer mapping handed to \<^verbatim>\<open>_fill_object\<close> is iterated with \<^verbatim>\<open>values.items()\<close>, in
  insertion order: an association list. Each key owns its inner dictionary, as in every
  \<^verbatim>\<open>dump()\<close> of the source, which builds them from fresh literals.
\<close>

type_synonym pyvalues = "(string \<times> pydict) list"

text \<open>\<^verbatim>\<open>sep.join(xs)\<close> on a list of strings.\<close>

fun join :: "string \<Rightarrow> string list \<Rightarrow> string" where
  "join sep [] = []"
| "join sep [x] = x"
| "join sep (x # y # ys) = x @ sep @ join sep (y # ys)"

section \<open>Errors\<close>

text \<open>
  Every exception the modelled code can raise. \<open>InvalidMISPObject\<close> is the class the module
  declares itself; \<open>KeyError\<close>, \<open>IndexError\<close> and \<open>AttributeError\<close> are raised by Python's
  own lookups; \<open>PEFormatError\<close> comes from \<^verbatim>\<open>pefile\<close>, \<open>PyMISPError\<close> from \<^verbatim>\<open>pymisp\<close> and
  \<open>OSError\<close> from opening a file.
\<close>

datatype error =
    InvalidMISPObject string
  | KeyError string
  | IndexError string
  | AttributeError string
  | PEFormatError string
  | PyMISPError string
  | OSError string

definition ebind :: "error + 'a \<Rightarrow> ('a \<Rightarrow> error + 'b) \<Rightarrow> error + 'b" where
  "ebind m f = (case m of Inl e \<Rightarrow> Inl e | Inr x \<Rightarrow> f x)"

section \<open>Object definitions, generators and records\<close>

text \<open>
  One entry of \<^verbatim>\<open>definition['attributes']\<close>: the key \<^verbatim>\<open>'misp-attribute'\<close> and the two
  optional defaults read with \<^verbatim>\<open>.get\<close>.
\<close>

record attribute_definition =
  misp_attribute :: string
  ad_disable_correlation :: "bool option"
  ad_to_ids :: "bool option"

text \<open>
  The JSON document loaded by \<^verbatim>\<open>MISPObjectGenerator.__init__\<close>. The keys \<^verbatim>\<open>'required'\<close> and
  \<^verbatim>\<open>'requiredOneOf'\<close> are optional (\<open>None\<close> when the document has no such key).
\<close>

record object_definition =
  d_name :: string
  d_meta_category :: string
  d_description :: string
  d_version :: int
  attributes :: "string \<rightharpoonup> attribute_definition"
  required :: "string list option"
  requiredOneOf :: "string list option"

text \<open>
  The state \<^verbatim>\<open>MISPObjectGenerator.__init__\<close> sets up. \<^verbatim>\<open>links\<close> holds the pairs
  \<^verbatim>\<open>(uuid, comment)\<close>; the comment defaults to \<^verbatim>\<open>None\<close>.
\<close>

record MISPObjectGenerator =
  definition' :: object_definition
  uuid :: string
  links :: "(string \<times> string option) list"

record object_reference =
  referenced_object_uuid :: string
  comment :: "string option"

text \<open>
  The dictionary \<^verbatim>\<open>_fill_object\<close> returns. \<open>ObjectAttribute\<close> holds the pairs
  \<^verbatim>\<open>{'type': object_type, 'Attribute': json}\<close>; \<open>ObjectReference\<close> is \<open>None\<close> when the
  dictionary has no such key. The type \<open>'a\<close> is what \<^verbatim>\<open>MISPAttribute._json()\<close> gives.
\<close>

record 'a misp_object =
  o_name :: string
  o_meta_category :: string
  o_uuid :: string
  o_description :: string
  o_version :: int
  ObjectAttribute :: "(string \<times> 'a) list"
  ObjectReference :: "object_reference list option"

section \<open>The generator contract\<close>

definition add_link :: "'z MISPObjectGenerator_scheme \<Rightarrow> string \<Rightarrow> string option
    \<Rightarrow> 'z MISPObjectGenerator_scheme" where
  "add_link self u c = self\<lparr>links := links self @ [(u, c)]\<rparr>"

definition new_empty_object :: "'z MISPObjectGenerator_scheme \<Rightarrow> object_definition
    \<Rightarrow> 'a misp_object" where
  "new_empty_object self object_definiton =
     \<lparr>o_name = d_name object_definiton, o_meta_category = d_meta_category object_definiton,
      o_uuid = uuid self, o_description = d_description object_definiton,
      o_version = d_version object_definiton, ObjectAttribute = [],
      ObjectReference = None\<rparr>"

text \<open>The loop over \<^verbatim>\<open>definition.get('required')\<close>: the first missing name raises.\<close>

fun check_required :: "string list \<Rightarrow> string set \<Rightarrow> error + bool" where
  "check_required [] all_attribute_names = Inr True"
| "check_required (r # rs) all_attribute_names =
     (if r \<notin> all_attribute_names
      then Inl (InvalidMISPObject (r @ '' is required is required''))
      else check_required rs all_attribute_names)"

text \<open>
  \<^verbatim>\<open>_validate\<close>. \<^verbatim>\<open>definition.get(key)\<close> is tested for its truth value, so a key that is
  missing and a key holding the empty list both skip their check. The \<^verbatim>\<open>print\<close> of the
  attribute names writes to standard output and is not part of the model.
\<close>

definition validate :: "object_definition \<Rightarrow> pyvalues \<Rightarrow> error + bool" where
  "validate d dump =
     (let all_attribute_names = set (map fst dump) in
      ebind
        (case requiredOneOf d of
           Some (x # xs) \<Rightarrow>
             if set (x # xs) \<inter> all_attribute_names = {}
             then Inl (InvalidMISPObject
                    (''At least one of the following attributes is required: ''
                      @ join '', '' (x # xs)))
             else Inr ()
         | _ \<Rightarrow> Inr ())
        (\<lambda>_. case required d of
               Some (r # rs) \<Rightarrow> check_required (r # rs) all_attribute_names
             | _ \<Rightarrow> Inr True))"

text \<open>\<^verbatim>\<open>definition[...].get(k)\<close> for an optional JSON boolean.\<close>

fun json_bool :: "bool option \<Rightarrow> pyval" where
  "json_bool None = PyNone"
| "json_bool (Some b) = PyBool b"

text \<open>
  The three writes of the loop body of \<^verbatim>\<open>_fill_object\<close> into the inner dictionary of one
  key: \<^verbatim>\<open>'type'\<close> always, the two flags when \<^verbatim>\<open>.get\<close> answers \<^verbatim>\<open>None\<close>.
\<close>

definition set_type_and_defaults :: "attribute_definition \<Rightarrow> pydict \<Rightarrow> pydict" where
  "set_type_and_defaults ad val =
     (let v1 = val(''type'' \<mapsto> PyStr (misp_attribute ad));
          v2 = (if py_get v1 ''disable_correlation'' = PyNone
                then v1(''disable_correlation'' \<mapsto> json_bool (ad_disable_correlation ad))
                else v1);
          v3 = (if py_get v2 ''to_ids'' = PyNone
                then v2(''to_ids'' \<mapsto> json_bool (ad_to_ids ad))
                else v2)
      in v3)"

text \<open>
  The loop \<^verbatim>\<open>for object_type, value in values.items()\<close>. The parameter \<open>mk\<close> stands for
  \<^verbatim>\<open>pymisp\<close>: \<^verbatim>\<open>MISPAttribute(...)\<close>, \<^verbatim>\<open>set_all_values(**value)\<close> and \<^verbatim>\<open>_json()\<close>, which either
  raises or gives the attribute's JSON. The second component of the result is the caller's
  mapping as the loop leaves it, also when an exception ends the loop.
\<close>

fun fill_attributes :: "(pydict \<Rightarrow> string + 'a) \<Rightarrow> object_definition \<Rightarrow> 'a misp_object
    \<Rightarrow> pyvalues \<Rightarrow> (error + 'a misp_object) \<times> pyvalues" where
  "fill_attributes mk d empty_object [] = (Inr empty_object, [])"
| "fill_attributes mk d empty_object ((object_type, val) # rest) =
     (if py_get val ''value'' = PyNone
      then (case fill_attributes mk d empty_object rest of
              (r, rest') \<Rightarrow> (r, (object_type, val) # rest'))
      else (case attributes d object_type of
              None \<Rightarrow> (Inl (KeyError object_type), (object_type, val) # rest)
            | Some ad \<Rightarrow>
                (let val' = set_type_and_defaults ad val in
                 case mk val' of
                   Inl m \<Rightarrow> (Inl (PyMISPError m), (object_type, val') # rest)
                 | Inr a \<Rightarrow>
                     (case fill_attributes mk d
                             (empty_object\<lparr>ObjectAttribute :=
                                ObjectAttribute empty_object @ [(object_type, a)]\<rparr>) rest of
                        (r, rest') \<Rightarrow> (r, (object_type, val') # rest')))))"

text \<open>
  \<^verbatim>\<open>_fill_object\<close>. The key \<^verbatim>\<open>'ObjectReference'\<close> is written only under \<^verbatim>\<open>if self.links\<close>.
  The result pairs what the call returns or raises with the caller's mapping afterwards.
\<close>

definition fill_object :: "(pydict \<Rightarrow> string + 'a) \<Rightarrow> 'z MISPObjectGenerator_scheme
    \<Rightarrow> pyvalues \<Rightarrow> bool \<Rightarrow> (error + 'a misp_object) \<times> pyvalues" where
  "fill_object mk self vals strict =
     (case (if strict then validate (definition' self) vals else Inr True) of
        Inl e \<Rightarrow> (Inl e, vals)
      | Inr ok \<Rightarrow>
          (let empty_object = new_empty_object self (definition' self);
               empty_object = (if links self \<noteq> []
                               then empty_object\<lparr>ObjectReference :=
                                      Some (map (\<lambda>(u, c). \<lparr>referenced_object_uuid = u, comment = c\<rparr>)
                                              (links self))\<rparr>
                               else empty_object)
           in fill_attributes mk (definition' self) empty_object vals))"

section \<open>Formatting\<close>

text \<open>\<^verbatim>\<open>'{}'.format(n)\<close> for a non-negative integer: its decimal digits.\<close>

definition digit :: "nat \<Rightarrow> char" where
  "digit n = ''0123456789'' ! n"

fun str_nat :: "nat \<Rightarrow> string" where
  "str_nat n = (if n < 10 then [digit n] else str_nat (n div 10) @ [digit (n mod 10)])"

declare str_nat.simps [simp del]

text \<open>\<^verbatim>\<open>os.path.basename\<close>: what follows the last slash.\<close>

definition basename :: "string \<Rightarrow> string" where
  "basename p = rev (takeWhile (\<lambda>c. c \<noteq> CHR ''/'') (rev p))"

text \<open>Reading an attribute that was never assigned raises \<^verbatim>\<open>AttributeError\<close>.\<close>

definition getattr :: "string \<Rightarrow> string \<Rightarrow> 'b option \<Rightarrow> error + 'b" where
  "getattr cls attr v =
     (case v of
        None \<Rightarrow> Inl (AttributeError ([CHR 0x27] @ cls @ [CHR 0x27] @ '' object has no attribute ''
                                    @ [CHR 0x27] @ attr @ [CHR 0x27]))
      | Some x \<Rightarrow> Inr x)"

section \<open>The collaborators\<close>

text \<open>
  One entry of \<^verbatim>\<open>pe.dump_dict()['PE Sections']\<close>, with the fields the module reads:
  \<^verbatim>\<open>s['Name']['Value']\<close>, \<^verbatim>\<open>s['SizeOfRawData']['Value']\<close>, \<^verbatim>\<open>s['VirtualAddress']['Value']\<close>,
  \<^verbatim>\<open>s['Misc_VirtualSize']['Value']\<close>, \<^verbatim>\<open>s['Entropy']\<close> and the four digests.
\<close>

record pe_section_dict =
  Name :: string
  SizeOfRawData :: int
  VirtualAddress :: int
  Misc_VirtualSize :: int
  Entropy :: real
  MD5 :: string
  SHA1 :: string
  SHA256 :: string
  SHA512 :: string

text \<open>
  The part of \<^verbatim>\<open>pe.dump_dict()\<close> the module reads. \<open>Debug_information\<close> lists, per entry,
  the \<^verbatim>\<open>'TimeDateStamp'\<close> dictionary if the entry has one. \<open>AddressOfEntryPoint\<close> is
  \<^verbatim>\<open>all_data['OPTIONAL_HEADER']['AddressOfEntryPoint']['Value']\<close>, and \<open>None\<close> when
  \<^verbatim>\<open>'OPTIONAL_HEADER'\<close> or its \<^verbatim>\<open>'AddressOfEntryPoint'\<close> is missing. A missing
  \<^verbatim>\<open>'Debug information'\<close>, \<^verbatim>\<open>'File Info'\<close> or \<^verbatim>\<open>'PE Sections'\<close> is the empty list: the
  module tests all three for their truth value only.
\<close>

record all_data =
  Debug_information :: "pydict option list"
  AddressOfEntryPoint :: "int option"
  File_Info :: "pydict list"
  PE_Sections :: "pe_section_dict list"

text \<open>
  What \<^verbatim>\<open>pefile.PE(data=...)\<close> gives: the three predicates, the import hash, the dictionary
  dump and, for \<^verbatim>\<open>pe.sections[i].get_data()\<close>, the raw bytes of each section.
\<close>

record pe_image =
  is_dll :: bool
  is_driver :: bool
  is_exe :: bool
  get_imphash :: string
  dump_dict :: all_data
  pe_sections :: "byte list list"

text \<open>
  Everything outside the module: the directory of object definitions and the file system
  (a missing path raises \<^verbatim>\<open>OSError\<close>), the stream of \<^verbatim>\<open>uuid.uuid4()\<close> draws, \<^verbatim>\<open>magic\<close>, the
  digests of \<^verbatim>\<open>hashlib\<close>, \<^verbatim>\<open>pydeep\<close>, \<^verbatim>\<open>math.log(x, base)\<close>, the parser of \<^verbatim>\<open>pefile\<close> (\<open>Inl\<close>
  is the message of its \<^verbatim>\<open>PEFormatError\<close>) and \<^verbatim>\<open>pymisp\<close>'s attribute (\<open>Inl\<close> is the
  message of its error).
\<close>

record 'a environment =
  load_definition :: "string \<rightharpoonup> object_definition"
  read_file :: "string \<rightharpoonup> byte list"
  uuid4 :: "nat \<Rightarrow> string"
  magic_from_buffer :: "byte list \<Rightarrow> string"
  md5_hexdigest :: "byte list \<Rightarrow> string"
  sha1_hexdigest :: "byte list \<Rightarrow> string"
  sha256_hexdigest :: "byte list \<Rightarrow> string"
  sha512_hexdigest :: "byte list \<Rightarrow> string"
  pydeep_hash_buf :: "byte list \<Rightarrow> string"
  math_log :: "real \<Rightarrow> real \<Rightarrow> real"
  pefile_PE :: "byte list \<Rightarrow> string + pe_image"
  MISPAttribute_json :: "pydict \<Rightarrow> string + 'a"

text \<open>Python's truth value.\<close>

fun truthy :: "pyval \<Rightarrow> bool" where
  "truthy PyNone = False"
| "truthy (PyBool b) = b"
| "truthy (PyInt i) = (i \<noteq> 0)"
| "truthy (PyFloat x) = (x \<noteq> 0)"
| "truthy (PyStr s) = (s \<noteq> [])"
| "truthy (PyBytes bs) = (bs \<noteq> [])"

section \<open>Construction of a generator\<close>

definition misp_objects_path :: string where
  "misp_objects_path = ''./misp-objects/objects''"

text \<open>
  \<^verbatim>\<open>MISPObjectGenerator.__init__\<close>: the definition is loaded, then one uuid is drawn. The
  number threaded through the constructors counts the draws made so far.
\<close>

definition MISPObjectGenerator_init :: "'a environment \<Rightarrow> nat \<Rightarrow> string
    \<Rightarrow> error + MISPObjectGenerator \<times> nat" where
  "MISPObjectGenerator_init env n object_definition =
     (case load_definition env (misp_objects_path @ ''/'' @ object_definition) of
        None \<Rightarrow> Inl (OSError (misp_objects_path @ ''/'' @ object_definition))
      | Some d \<Rightarrow> Inr (\<lparr>definition' = d, uuid = uuid4 env n, links = []\<rparr>, Suc n))"

section \<open>The file generator\<close>

text \<open>\<^verbatim>\<open>Counter(bytearray(data))\<close>: the counts, in the order the bytes first occur.\<close>

fun counter_add :: "byte \<Rightarrow> (byte \<times> nat) list \<Rightarrow> (byte \<times> nat) list" where
  "counter_add b [] = [(b, 1)]"
| "counter_add b ((k, c) # rest) =
     (if k = b then (k, Suc c) # rest else (k, c) # counter_add b rest)"

definition Counter :: "byte list \<Rightarrow> (byte \<times> nat) list" where
  "Counter data = foldl (\<lambda>occurences b. counter_add b occurences) [] data"

text \<open>
  \<^verbatim>\<open>FileObject.__entropy_H\<close>, with real numbers for Python's floats: the division and the
  subtraction are exact here, and \<^verbatim>\<open>math.log\<close> is whatever the environment supplies.
\<close>

definition entropy_H :: "'a environment \<Rightarrow> byte list \<Rightarrow> real" where
  "entropy_H env data =
     (if length data = 0 then 0
      else foldl (\<lambda>entropy x. let p_x = real x / real (length data)
                               in entropy - p_x * math_log env p_x 2)
             0 (map snd (Counter data)))"

text \<open>
  The attributes of a \<^verbatim>\<open>FileObject\<close>. Those assigned only under \<^verbatim>\<open>if self.size > 0\<close> are
  \<open>None\<close> while unassigned. \<^verbatim>\<open>pseudo_file\<close> holds the same bytes as \<^verbatim>\<open>data\<close>.
\<close>

record FileObject = MISPObjectGenerator +
  filepath :: string
  f_data :: "byte list"
  filename :: string
  f_size :: nat
  filetype :: "string option"
  f_entropy :: "real option"
  f_md5 :: "string option"
  f_sha1 :: "string option"
  f_sha256 :: "string option"
  f_sha512 :: "string option"
  f_ssdeep :: "string option"

text \<open>
  \<^verbatim>\<open>FileObject.__init__\<close> with \<^verbatim>\<open>generate_attributes\<close>. \<^verbatim>\<open>os.path.getsize\<close> is the length of
  the bytes just read.
\<close>

definition FileObject_init :: "'a environment \<Rightarrow> nat \<Rightarrow> string \<Rightarrow> error + FileObject \<times> nat" where
  "FileObject_init env n path =
     ebind (MISPObjectGenerator_init env n ''file/definition.json'') (\<lambda>(g, n').
       case read_file env path of
         None \<Rightarrow> Inl (OSError path)
       | Some bytes \<Rightarrow>
           (let self = MISPObjectGenerator.extend g
                  \<lparr>filepath = path, f_data = bytes, filename = basename path,
                   f_size = length bytes, filetype = None, f_entropy = None, f_md5 = None,
                   f_sha1 = None, f_sha256 = None, f_sha512 = None, f_ssdeep = None\<rparr>
            in Inr (if f_size self > 0
                    then self\<lparr>filetype := Some (magic_from_buffer env bytes),
                              f_entropy := Some (entropy_H env bytes),
                              f_md5 := Some (md5_hexdigest env bytes),
                              f_sha1 := Some (sha1_hexdigest env bytes),
                              f_sha256 := Some (sha256_hexdigest env bytes),
                              f_sha512 := Some (sha512_hexdigest env bytes),
                              f_ssdeep := Some (pydeep_hash_buf env bytes)\<rparr>
                    else self, n')))"

text \<open>
  \<^verbatim>\<open>FileObject.dump\<close>. The dictionary is local to the call, so only the record (or the
  exception) of \<^verbatim>\<open>_fill_object\<close> is kept.
\<close>

definition FileObject_dump :: "'a environment \<Rightarrow> FileObject \<Rightarrow> error + 'a misp_object" where
  "FileObject_dump env self =
     (let file_object =
            [(''filename'', [''value'' \<mapsto> PyStr (filename self)]),
             (''size-in-bytes'', [''value'' \<mapsto> PyInt (int (f_size self))])]
      in if f_size self > 0
         then ebind (getattr ''FileObject'' ''entropy'' (f_entropy self)) (\<lambda>entropy.
              ebind (getattr ''FileObject'' ''ssdeep'' (f_ssdeep self)) (\<lambda>ssdeep.
              ebind (getattr ''FileObject'' ''sha512'' (f_sha512 self)) (\<lambda>sha512.
              ebind (getattr ''FileObject'' ''md5'' (f_md5 self)) (\<lambda>md5.
              ebind (getattr ''FileObject'' ''sha1'' (f_sha1 self)) (\<lambda>sha1.
              ebind (getattr ''FileObject'' ''sha256'' (f_sha256 self)) (\<lambda>sha256.
                fst (fill_object (MISPAttribute_json env) self
                  (file_object @
                   [(''entropy'', [''value'' \<mapsto> PyFloat entropy]),
                    (''ssdeep'', [''value'' \<mapsto> PyStr ssdeep]),
                    (''sha512'', [''value'' \<mapsto> PyStr sha512]),
                    (''md5'', [''value'' \<mapsto> PyStr md5]),
                    (''sha1'', [''value'' \<mapsto> PyStr sha1]),
                    (''sha256'', [''value'' \<mapsto> PyStr sha256]),
                    (''malware-sample'',
                       [''value'' \<mapsto> PyStr (filename self @ ''|'' @ md5),
                        ''data'' \<mapsto> PyBytes (f_data self)])])
                  True)))))))
         else fst (fill_object (MISPAttribute_json env) self file_object True))"

section \<open>The section generator\<close>

record PESectionObject = MISPObjectGenerator +
  section_info :: pe_section_dict
  s_data :: "byte list"
  s_name :: string
  s_size :: int
  s_entropy :: "real option"
  s_md5 :: "string option"
  s_sha1 :: "string option"
  s_sha256 :: "string option"
  s_sha512 :: "string option"
  s_ssdeep :: "string option"

definition PESectionObject_init :: "'a environment \<Rightarrow> nat \<Rightarrow> pe_section_dict \<Rightarrow> byte list
    \<Rightarrow> error + PESectionObject \<times> nat" where
  "PESectionObject_init env n info bytes =
     ebind (MISPObjectGenerator_init env n ''pe-section/definition.json'') (\<lambda>(g, n').
       let self = MISPObjectGenerator.extend g
              \<lparr>section_info = info, s_data = bytes, s_name = Name info,
               s_size = SizeOfRawData info, s_entropy = None, s_md5 = None, s_sha1 = None,
               s_sha256 = None, s_sha512 = None, s_ssdeep = None\<rparr>
       in Inr (if s_size self > 0
               then self\<lparr>s_entropy := Some (Entropy info), s_md5 := Some (MD5 info),
                         s_sha1 := Some (SHA1 info), s_sha256 := Some (SHA256 info),
                         s_sha512 := Some (SHA512 info),
                         s_ssdeep := Some (pydeep_hash_buf env bytes)\<rparr>
               else self, n'))"

definition PESectionObject_dump :: "'a environment \<Rightarrow> PESectionObject
    \<Rightarrow> error + 'a misp_object" where
  "PESectionObject_dump env self =
     (let section =
            [(''name'', [''value'' \<mapsto> PyStr (s_name self)]),
             (''size-in-bytes'', [''value'' \<mapsto> PyInt (s_size self)])]
      in if s_size self > 0
         then ebind (getattr ''PESectionObject'' ''entropy'' (s_entropy self)) (\<lambda>entropy.
              ebind (getattr ''PESectionObject'' ''md5'' (s_md5 self)) (\<lambda>md5.
              ebind (getattr ''PESectionObject'' ''sha1'' (s_sha1 self)) (\<lambda>sha1.
              ebind (getattr ''PESectionObject'' ''sha256'' (s_sha256 self)) (\<lambda>sha256.
              ebind (getattr ''PESectionObject'' ''sha512'' (s_sha512 self)) (\<lambda>sha512.
              ebind (getattr ''PESectionObject'' ''ssdeep'' (s_ssdeep self)) (\<lambda>ssdeep.
                fst (fill_object (MISPAttribute_json env) self
                  (section @
                   [(''entropy'', [''value'' \<mapsto> PyFloat entropy]),
                    (''md5'', [''value'' \<mapsto> PyStr md5]),
                    (''sha1'', [''value'' \<mapsto> PyStr sha1]),
                    (''sha256'', [''value'' \<mapsto> PyStr sha256]),
                    (''sha512'', [''value'' \<mapsto> PyStr sha512]),
                    (''ssdeep'', [''value'' \<mapsto> PyStr ssdeep])])
                  True)))))))
         else fst (fill_object (MISPAttribute_json env) self section True))"

section \<open>The executable generator\<close>

text \<open>
  The attributes of a \<^verbatim>\<open>PEObject\<close>. Those assigned under a condition are \<open>None\<close> while
  unassigned, which is what \<^verbatim>\<open>hasattr\<close> tests in \<^verbatim>\<open>dump\<close>; an attribute assigned the value
  \<^verbatim>\<open>None\<close> is \<open>Some PyNone\<close>. \<^verbatim>\<open>pe_type\<close>, \<^verbatim>\<open>imphash\<close>, \<^verbatim>\<open>sections\<close> and \<^verbatim>\<open>nb_sections\<close> are
  assigned on every path.
\<close>

record PEObject = MISPObjectGenerator +
  pe_data :: "byte list"
  pe :: pe_image
  pe_type :: string
  imphash :: string
  compilation_timestamp :: "pyval option"
  entrypoint_address :: "int option"
  original_filename :: "pyval option"
  internal_filename :: "pyval option"
  file_description :: "pyval option"
  file_version :: "pyval option"
  lang_id :: "pyval option"
  product_name :: "pyval option"
  product_version :: "pyval option"
  company_name :: "pyval option"
  legal_copyright :: "pyval option"
  entrypoint_section :: "(string \<times> nat) option"
  sections :: "PESectionObject list"
  nb_sections :: nat

text \<open>
  The loop \<^verbatim>\<open>for s in all_data['PE Sections']\<close> with its counter \<^verbatim>\<open>pos\<close>. The test on
  \<^verbatim>\<open>self.entrypoint_address\<close> reads the attribute whether or not it was assigned.
\<close>

fun sections_loop :: "'a environment \<Rightarrow> nat \<Rightarrow> PEObject \<Rightarrow> nat \<Rightarrow> pe_section_dict list
    \<Rightarrow> error + PEObject \<times> nat" where
  "sections_loop env n self pos [] = Inr (self, n)"
| "sections_loop env n self pos (s # rest) =
     (if pos < length (pe_sections (pe self))
      then ebind (PESectionObject_init env n s (pe_sections (pe self) ! pos)) (\<lambda>(section, n').
           let self1 = add_link self (uuid section)
                         (Some (''Section '' @ str_nat pos @ '' of PE''))
           in ebind (getattr ''PEObject'' ''entrypoint_address'' (entrypoint_address self1))
                (\<lambda>entrypoint.
                   let self2 = (if entrypoint \<ge> VirtualAddress s
                                   \<and> entrypoint < VirtualAddress s + Misc_VirtualSize s
                                then self1\<lparr>entrypoint_section := Some (Name s, pos)\<rparr>
                                else self1)
                   in sections_loop env n' (self2\<lparr>sections := sections self2 @ [section]\<rparr>)
                        (Suc pos) rest))
      else Inl (IndexError ''list index out of range''))"

text \<open>
  \<^verbatim>\<open>PEObject.generate_attributes\<close>, from a generator whose optional attributes are still
  unassigned.
\<close>

definition PEObject_generate_attributes :: "'a environment \<Rightarrow> nat \<Rightarrow> PEObject
    \<Rightarrow> error + PEObject \<times> nat" where
  "PEObject_generate_attributes env n self0 =
     (let self1 = self0\<lparr>pe_type := (if is_dll (pe self0) then ''dll''
                                     else if is_driver (pe self0) then ''driver''
                                     else if is_exe (pe self0) then ''exe''
                                     else ''unknown''),
                        imphash := get_imphash (pe self0)\<rparr>;
          all_data = dump_dict (pe self0);
          self2 = (case Debug_information all_data of
                     Some tds # _ \<Rightarrow>
                       if truthy (py_get tds ''ISO Time'')
                       then self1\<lparr>compilation_timestamp := Some (py_get tds ''ISO Time'')\<rparr>
                       else self1
                   | _ \<Rightarrow> self1);
          self3 = (case AddressOfEntryPoint all_data of
                     Some v \<Rightarrow> self2\<lparr>entrypoint_address := Some v\<rparr>
                   | None \<Rightarrow> self2)
      in ebind
           (case File_Info all_data of
              [] \<Rightarrow> Inr self3
            | [x] \<Rightarrow> Inl (IndexError ''list index out of range'')
            | x # fi # _ \<Rightarrow>
                Inr (self3\<lparr>original_filename := Some (py_get fi ''OriginalFilename''),
                           internal_filename := Some (py_get fi ''InternalName''),
                           file_description := Some (py_get fi ''FileDescription''),
                           file_version := Some (py_get fi ''FileVersion''),
                           lang_id := Some (py_get fi ''LangID''),
                           product_name := Some (py_get fi ''ProductName''),
                           product_version := Some (py_get fi ''ProductVersion''),
                           company_name := Some (py_get fi ''CompanyName''),
                           legal_copyright := Some (py_get fi ''LegalCopyright'')\<rparr>))
           (\<lambda>self4.
              ebind (sections_loop env n (self4\<lparr>sections := []\<rparr>) 0 (PE_Sections all_data))
                (\<lambda>(self5, n'). Inr (self5\<lparr>nb_sections := length (sections self5)\<rparr>, n'))))"

text \<open>
  \<^verbatim>\<open>PEObject.__init__\<close>: the base constructor, then the parser, whose \<^verbatim>\<open>PEFormatError\<close> is
  the only one the model knows, then \<^verbatim>\<open>generate_attributes\<close>.
\<close>

definition PEObject_init :: "'a environment \<Rightarrow> nat \<Rightarrow> byte list \<Rightarrow> error + PEObject \<times> nat" where
  "PEObject_init env n bytes =
     ebind (MISPObjectGenerator_init env n ''pe/definition.json'') (\<lambda>(g, n').
       case pefile_PE env bytes of
         Inl m \<Rightarrow> Inl (PEFormatError m)
       | Inr parsed \<Rightarrow>
           PEObject_generate_attributes env n'
             (MISPObjectGenerator.extend g
                \<lparr>pe_data = bytes, pe = parsed, pe_type = [], imphash = [],
                 compilation_timestamp = None, entrypoint_address = None,
                 original_filename = None, internal_filename = None,
                 file_description = None, file_version = None, lang_id = None,
                 product_name = None, product_version = None, company_name = None,
                 legal_copyright = None, entrypoint_section = None, sections = [],
                 nb_sections = 0\<rparr>))"

text \<open>An entry \<^verbatim>\<open>pe_object[key] = {'value': v}\<close> written under \<^verbatim>\<open>if hasattr(self, ...)\<close>.\<close>

definition if_hasattr :: "string \<Rightarrow> pyval option \<Rightarrow> pyvalues" where
  "if_hasattr key v = (case v of None \<Rightarrow> [] | Some x \<Rightarrow> [(key, [''value'' \<mapsto> x])])"

definition PEObject_dump :: "'a environment \<Rightarrow> PEObject \<Rightarrow> error + 'a misp_object" where
  "PEObject_dump env self =
     fst (fill_object (MISPAttribute_json env) self
       ([(''type'', [''value'' \<mapsto> PyStr (pe_type self)]),
         (''imphash'', [''value'' \<mapsto> PyStr (imphash self)])]
        @ if_hasattr ''original-filename'' (original_filename self)
        @ if_hasattr ''internal-filename'' (internal_filename self)
        @ if_hasattr ''compilation-timestamp'' (compilation_timestamp self)
        @ if_hasattr ''entrypoint-section|position''
            (map_option (\<lambda>(section_name, position).
               PyStr (section_name @ ''|'' @ str_nat position)) (entrypoint_section self))
        @ if_hasattr ''entrypoint-address'' (map_option PyInt (entrypoint_address self))
        @ if_hasattr ''file-description'' (file_description self)
        @ if_hasattr ''file-version'' (file_version self)
        @ if_hasattr ''lang-id'' (lang_id self)
        @ if_hasattr ''product-name'' (product_name self)
        @ if_hasattr ''product-version'' (product_version self)
        @ if_hasattr ''company-name'' (company_name self)
        @ [(''number-sections'', [''value'' \<mapsto> PyInt (int (nb_sections self))])])
       True)"

section \<open>The pipeline\<close>

text \<open>The loop \<^verbatim>\<open>for s in misp_pe.sections: pe_sections.append(s.dump())\<close>.\<close>

fun dump_sections :: "'a environment \<Rightarrow> PESectionObject list \<Rightarrow> error + 'a misp_object list" where
  "dump_sections env [] = Inr []"
| "dump_sections env (s # rest) =
     ebind (PESectionObject_dump env s) (\<lambda>r.
     ebind (dump_sections env rest) (\<lambda>rs. Inr (r # rs)))"

text \<open>The body of the \<^verbatim>\<open>try\<close> block of \<^verbatim>\<open>make_objects\<close>.\<close>

definition make_objects_try :: "'a environment \<Rightarrow> nat \<Rightarrow> FileObject
    \<Rightarrow> error + 'a misp_object \<times> 'a misp_object option \<times> 'a misp_object list option" where
  "make_objects_try env n misp_file =
     ebind (PEObject_init env n (f_data misp_file)) (\<lambda>(misp_pe, n').
       let misp_file1 = add_link misp_file (uuid misp_pe) (Some ''PE indicators'')
       in ebind (FileObject_dump env misp_file1) (\<lambda>file_object.
          ebind (PEObject_dump env misp_pe) (\<lambda>pe_object.
          ebind (dump_sections env (sections misp_pe)) (\<lambda>pe_sections.
            Inr (file_object, Some pe_object, Some pe_sections)))))"

text \<open>
  \<^verbatim>\<open>make_objects\<close>. \<^verbatim>\<open>except pefile.PEFormatError: pass\<close> falls through to the dump of the
  file generator alone. In the model that error is raised by the parser only, before
  \<^verbatim>\<open>add_link\<close> runs, so the generator dumped in the fallback has no link.
\<close>

definition make_objects :: "'a environment \<Rightarrow> nat \<Rightarrow> string
    \<Rightarrow> error + 'a misp_object \<times> 'a misp_object option \<times> 'a misp_object list option" where
  "make_objects env n path =
     ebind (FileObject_init env n path) (\<lambda>(misp_file, n').
       case make_objects_try env n' misp_file of
         Inl (PEFormatError m) \<Rightarrow>
           ebind (FileObject_dump env misp_file) (\<lambda>file_object. Inr (file_object, None, None))
       | Inl e \<Rightarrow> Inl e
       | Inr r \<Rightarrow> Inr r)"

section \<open>Auxiliary notions for the statements\<close>


text \<open>What one pass of the loop body leaves in the caller's mapping for one key.\<close>

definition entry_after :: "object_definition \<Rightarrow> string \<times> pydict \<Rightarrow> string \<times> pydict \<Rightarrow> bool" where
  "entry_after d e e' =
     (fst e' = fst e \<and>
      (if py_get (snd e) ''value'' = PyNone then snd e' = snd e
       else \<exists>ad. attributes d (fst e) = Some ad \<and> snd e' = set_type_and_defaults ad (snd e)))"

text \<open>
  Follows the wording of the specification, not the source: a key is present in the mapping
  with a value other than \<^verbatim>\<open>None\<close>.
\<close>

definition present_with_value :: "pyvalues \<Rightarrow> string \<Rightarrow> bool" where
  "present_with_value dump k =
     (case map_of dump k of None \<Rightarrow> False | Some v \<Rightarrow> py_get v ''value'' \<noteq> PyNone)"

text \<open>The generator after one pass of the loop over the sections.\<close>

definition after_section :: "PEObject \<Rightarrow> nat \<Rightarrow> pe_section_dict \<Rightarrow> PESectionObject \<Rightarrow> int
    \<Rightarrow> PEObject" where
  "after_section self pos s sec entrypoint =
     (let self1 = add_link self (uuid sec) (Some (''Section '' @ str_nat pos @ '' of PE''));
          self2 = (if entrypoint \<ge> VirtualAddress s
                      \<and> entrypoint < VirtualAddress s + Misc_VirtualSize s
                   then self1\<lparr>entrypoint_section := Some (Name s, pos)\<rparr>
                   else self1)
      in self2\<lparr>sections := sections self2 @ [sec]\<rparr>)"

section \<open>Example inputs\<close>


definition example_definition :: object_definition where
  "example_definition =
     \<lparr>d_name = ''file'', d_meta_category = ''file'', d_description = ''File object'',
      d_version = 1,
      attributes =
        [''filename'' \<mapsto> \<lparr>misp_attribute = ''filename'', ad_disable_correlation = Some True,
                          ad_to_ids = None\<rparr>,
         ''size-in-bytes'' \<mapsto> \<lparr>misp_attribute = ''size-in-bytes'',
                          ad_disable_correlation = Some True, ad_to_ids = Some False\<rparr>,
         ''md5'' \<mapsto> \<lparr>misp_attribute = ''md5'', ad_disable_correlation = None,
                     ad_to_ids = None\<rparr>],
      required = Some [''size-in-bytes''],
      requiredOneOf = Some [''filename'', ''md5'']\<rparr>"

definition example_generator :: MISPObjectGenerator where
  "example_generator = \<lparr>definition' = example_definition, uuid = ''u-file'', links = []\<rparr>"

definition example_mk :: "pydict \<Rightarrow> string + pyval \<times> pyval" where
  "example_mk v = Inr (py_get v ''type'', py_get v ''value'')"

definition example_values :: pyvalues where
  "example_values = [(''filename'', [''value'' \<mapsto> PyStr ''a.exe'']),
                     (''size-in-bytes'', [''value'' \<mapsto> PyInt 3]),
                     (''md5'', [''value'' \<mapsto> PyNone])]"

definition example_null_values :: pyvalues where
  "example_null_values = [(''md5'', [''value'' \<mapsto> PyNone]),
                          (''size-in-bytes'', [''value'' \<mapsto> PyInt 3])]"


text \<open>A definition that declares the given keys, each with its own name as type.\<close>

definition plain_definition :: "string \<Rightarrow> string list \<Rightarrow> object_definition" where
  "plain_definition n keys =
     \<lparr>d_name = n, d_meta_category = ''file'', d_description = n, d_version = 1,
      attributes = map_of (map (\<lambda>k. (k, \<lparr>misp_attribute = k, ad_disable_correlation = None,
                                            ad_to_ids = None\<rparr>)) keys),
      required = None, requiredOneOf = None\<rparr>"

definition example_section0 :: pe_section_dict where
  "example_section0 =
     \<lparr>Name = ''.text'', SizeOfRawData = 0, VirtualAddress = 4096, Misc_VirtualSize = 512,
      Entropy = 0, MD5 = [], SHA1 = [], SHA256 = [], SHA512 = []\<rparr>"

definition example_section1 :: pe_section_dict where
  "example_section1 =
     \<lparr>Name = ''.data'', SizeOfRawData = 0, VirtualAddress = 8192, Misc_VirtualSize = 512,
      Entropy = 0, MD5 = [], SHA1 = [], SHA256 = [], SHA512 = []\<rparr>"

definition example_image :: pe_image where
  "example_image =
     \<lparr>is_dll = False, is_driver = False, is_exe = True, get_imphash = ''imp'',
      dump_dict = \<lparr>Debug_information = [], AddressOfEntryPoint = Some 4100, File_Info = [],
                   PE_Sections = [example_section0, example_section1]\<rparr>,
      pe_sections = [[], []]\<rparr>"

text \<open>
  An environment with two files: \<^verbatim>\<open>/tmp/a.exe\<close>, which the parser accepts, and
  \<^verbatim>\<open>/tmp/a.txt\<close>, which it rejects. A third, \<^verbatim>\<open>/tmp/b.exe\<close>, parses to an image with
  sections and no entry point.
\<close>

definition example_environment :: "(pyval \<times> pyval) environment" where
  "example_environment =
     \<lparr>load_definition =
        [''./misp-objects/objects/file/definition.json'' \<mapsto>
           plain_definition ''file'' [''filename'', ''size-in-bytes'', ''entropy'', ''ssdeep'',
             ''sha512'', ''md5'', ''sha1'', ''sha256'', ''malware-sample''],
         ''./misp-objects/objects/pe/definition.json'' \<mapsto>
           plain_definition ''pe'' [''type'', ''imphash'', ''entrypoint-section|position'',
             ''entrypoint-address'', ''number-sections''],
         ''./misp-objects/objects/pe-section/definition.json'' \<mapsto>
           plain_definition ''pe-section'' [''name'', ''size-in-bytes'']],
      read_file = [''/tmp/a.exe'' \<mapsto> [77, 90], ''/tmp/a.txt'' \<mapsto> [104, 105],
                   ''/tmp/b.exe'' \<mapsto> [77, 90, 0]],
      uuid4 = (\<lambda>n. ''uuid-'' @ str_nat n),
      magic_from_buffer = (\<lambda>b. ''data''),
      md5_hexdigest = (\<lambda>b. ''md5''),
      sha1_hexdigest = (\<lambda>b. ''sha1''),
      sha256_hexdigest = (\<lambda>b. ''sha256''),
      sha512_hexdigest = (\<lambda>b. ''sha512''),
      pydeep_hash_buf = (\<lambda>b. ''ssdeep''),
      math_log = (\<lambda>x b. if x = 1 / 2 \<and> b = 2 then - 1 else 0),
      pefile_PE = (\<lambda>b. if b = [77, 90] then Inr example_image
                        else if b = [77, 90, 0]
                        then Inr (example_image\<lparr>dump_dict :=
                               (dump_dict example_image)\<lparr>AddressOfEntryPoint := None\<rparr>\<rparr>)
                        else Inl ''DOS Header magic not found.''),
      MISPAttribute_json = example_mk\<rparr>"

text \<open>The example environment with a parser that reports an image without sections.\<close>

definition example_environment_no_sections :: "(pyval \<times> pyval) environment" where
  "example_environment_no_sections =
     example_environment\<lparr>pefile_PE := (\<lambda>b. Inr (example_image\<lparr>dump_dict :=
        (dump_dict example_image)\<lparr>PE_Sections := []\<rparr>, pe_sections := []\<rparr>))\<rparr>"

section \<open>Validation and strict assembly\<close>


lemma check_required_cases:
  "check_required rs A = Inr True \<or> (\<exists>m. check_required rs A = Inl (InvalidMISPObject m))"
  by (induction rs) auto

lemma validate_cases:
  "validate d dump = Inr True \<or> (\<exists>m. validate d dump = Inl (InvalidMISPObject m))"
  unfolding validate_def Let_def ebind_def
  using check_required_cases by (auto split: option.splits list.splits)

lemma fill_attributes_not_invalid:
  "fill_attributes mk d obj vals = (r, vals') \<Longrightarrow> r \<noteq> Inl (InvalidMISPObject m)"
  by (induction vals arbitrary: obj r vals')
     (auto split: prod.splits option.splits sum.splits if_splits simp: Let_def)

lemmas example_defs = example_definition_def example_generator_def example_mk_def
  example_values_def example_null_values_def

lemma example_validates: "validate (definition' example_generator) example_values = Inr True"
  by (simp add: example_defs validate_def ebind_def)

lemma example_fills:
  "\<exists>obj vals'. fill_object example_mk example_generator example_values True = (Inr obj, vals')"
  by (simp add: fill_object_def example_validates Let_def)
     (simp add: example_defs py_get_def Let_def)

lemma example_linked_fills:
  "\<exists>obj vals'. fill_object example_mk
      (add_link example_generator ''u-pe'' (Some ''PE indicators'')) example_values True
        = (Inr obj, vals')"
  by (simp add: fill_object_def add_link_def Let_def)
     (simp add: example_defs py_get_def Let_def validate_def ebind_def)

text \<open>
  Claim C1. A strict call of \<^verbatim>\<open>_fill_object\<close> raises \<^verbatim>\<open>InvalidMISPObject\<close> exactly when
  \<^verbatim>\<open>_validate\<close> does not return \<^verbatim>\<open>True\<close> on the same mapping; it then raises the error of
  \<^verbatim>\<open>_validate\<close> and leaves the mapping alone. When \<^verbatim>\<open>_validate\<close> returns \<^verbatim>\<open>True\<close>, the
  strict call and the non-strict call give the same outcome: the same record, the same
  exception if the loop raises one, and the same writes into the mapping.
\<close>

theorem strict_fails_iff_validate_fails:
  "((\<exists>m. fst (fill_object mk self vals True) = Inl (InvalidMISPObject m))
      \<longleftrightarrow> validate (definition' self) vals \<noteq> Inr True)
   \<and> (\<forall>e. validate (definition' self) vals = Inl e
          \<longrightarrow> fill_object mk self vals True = (Inl e, vals))
   \<and> (validate (definition' self) vals = Inr True
          \<longrightarrow> fill_object mk self vals True = fill_object mk self vals False)"
proof (intro conjI allI impI)
  show "(\<exists>m. fst (fill_object mk self vals True) = Inl (InvalidMISPObject m))
      \<longleftrightarrow> validate (definition' self) vals \<noteq> Inr True"
  proof (cases "validate (definition' self) vals")
    case (Inl e)
    with validate_cases [of "definition' self" vals] show ?thesis
      by (auto simp: fill_object_def)
  next
    case (Inr b)
    with validate_cases [of "definition' self" vals] have "validate (definition' self) vals = Inr True"
      by auto
    moreover have "\<And>obj m. fst (fill_attributes mk (definition' self) obj vals)
        \<noteq> Inl (InvalidMISPObject m)"
      by (metis fill_attributes_not_invalid surjective_pairing)
    ultimately show ?thesis
      by (simp add: fill_object_def Let_def)
  qed
next
  fix e assume "validate (definition' self) vals = Inl e"
  then show "fill_object mk self vals True = (Inl e, vals)"
    by (simp add: fill_object_def)
next
  assume "validate (definition' self) vals = Inr True"
  then show "fill_object mk self vals True = fill_object mk self vals False"
    by (simp add: fill_object_def)
qed

theorem strict_fails_iff_validate_fails_witness:
  "validate (definition' example_generator) example_values = Inr True
   \<and> fill_object example_mk example_generator example_values True
       = fill_object example_mk example_generator example_values False
   \<and> validate (definition' example_generator) []
       = Inl (InvalidMISPObject
           ''At least one of the following attributes is required: filename, md5'')
   \<and> fill_object example_mk example_generator [] True
       = (Inl (InvalidMISPObject
           ''At least one of the following attributes is required: filename, md5''), [])"
proof -
  have f: "validate (definition' example_generator) []
       = Inl (InvalidMISPObject
           ''At least one of the following attributes is required: filename, md5'')"
    by (simp add: example_defs validate_def ebind_def)
  from example_validates f
    strict_fails_iff_validate_fails [of example_mk example_generator example_values]
    strict_fails_iff_validate_fails [of example_mk example_generator "[]"]
  show ?thesis by blast
qed

lemma check_required_ok: "check_required rs A = Inr True \<longleftrightarrow> set rs \<subseteq> A"
  by (induction rs) auto

lemma check_required_first_missing:
  "set pre \<subseteq> A \<Longrightarrow> r \<notin> A \<Longrightarrow>
     check_required (pre @ r # post) A = Inl (InvalidMISPObject (r @ '' is required is required''))"
  by (induction pre) auto

text \<open>
  Claim C2, as amended. \<^verbatim>\<open>_validate\<close> looks at the keys of the mapping only. It returns
  \<^verbatim>\<open>True\<close> exactly when (1) a non-empty \<^verbatim>\<open>requiredOneOf\<close> shares a key with the mapping and
  (2) every name of \<^verbatim>\<open>required\<close> is a key of the mapping. When (1) fails the message
  lists the candidates joined by a comma and a space; when (1) holds and (2) fails the
  message names the first name of \<^verbatim>\<open>required\<close> that is missing.
\<close>

theorem validate_checks_keys:
  "(validate d dump = Inr True \<longleftrightarrow>
      (\<forall>roo. requiredOneOf d = Some roo \<longrightarrow> roo \<noteq> [] \<longrightarrow> set roo \<inter> fst ` set dump \<noteq> {})
      \<and> (\<forall>req. required d = Some req \<longrightarrow> set req \<subseteq> fst ` set dump))
   \<and> (\<forall>roo. requiredOneOf d = Some roo \<longrightarrow> roo \<noteq> [] \<longrightarrow> set roo \<inter> fst ` set dump = {} \<longrightarrow>
         validate d dump = Inl (InvalidMISPObject
            (''At least one of the following attributes is required: '' @ join '', '' roo)))
   \<and> (\<forall>pre r post.
         (\<forall>roo. requiredOneOf d = Some roo \<longrightarrow> roo \<noteq> [] \<longrightarrow> set roo \<inter> fst ` set dump \<noteq> {}) \<longrightarrow>
         required d = Some (pre @ r # post) \<longrightarrow> set pre \<subseteq> fst ` set dump \<longrightarrow> r \<notin> fst ` set dump \<longrightarrow>
         validate d dump = Inl (InvalidMISPObject (r @ '' is required is required'')))"
proof (intro conjI allI impI)
  show "validate d dump = Inr True \<longleftrightarrow>
      (\<forall>roo. requiredOneOf d = Some roo \<longrightarrow> roo \<noteq> [] \<longrightarrow> set roo \<inter> fst ` set dump \<noteq> {})
      \<and> (\<forall>req. required d = Some req \<longrightarrow> set req \<subseteq> fst ` set dump)"
    unfolding validate_def Let_def ebind_def
    by (auto split: option.splits list.splits simp: check_required_ok)
next
  fix roo assume "requiredOneOf d = Some roo" "roo \<noteq> []" "set roo \<inter> fst ` set dump = {}"
  then show "validate d dump = Inl (InvalidMISPObject
            (''At least one of the following attributes is required: '' @ join '', '' roo))"
    unfolding validate_def Let_def ebind_def
    by (cases roo) auto
next
  fix pre r post
  assume a: "\<forall>roo. requiredOneOf d = Some roo \<longrightarrow> roo \<noteq> [] \<longrightarrow> set roo \<inter> fst ` set dump \<noteq> {}"
    and b: "required d = Some (pre @ r # post)" and c: "set pre \<subseteq> fst ` set dump" and e: "r \<notin> fst ` set dump"
  have "check_required (pre @ r # post) (fst ` set dump) = Inl (InvalidMISPObject (r @ '' is required is required''))"
    using c e by (rule check_required_first_missing)
  moreover obtain y ys where "pre @ r # post = y # ys" by (cases pre) auto
  ultimately show "validate d dump = Inl (InvalidMISPObject (r @ '' is required is required''))"
    using a b unfolding validate_def Let_def ebind_def
    by (auto split: option.splits list.splits)
qed

theorem validate_checks_keys_witness:
  "validate example_definition example_values = Inr True
   \<and> validate example_definition [(''size-in-bytes'', [''value'' \<mapsto> PyInt 3])]
       = Inl (InvalidMISPObject
           (''At least one of the following attributes is required: ''
             @ join '', '' [''filename'', ''md5'']))
   \<and> validate example_definition [(''md5'', [''value'' \<mapsto> PyNone])]
       = Inl (InvalidMISPObject (''size-in-bytes'' @ '' is required is required''))"
proof -
  have r: "requiredOneOf example_definition = Some [''filename'', ''md5'']"
    and q: "required example_definition = Some ([] @ ''size-in-bytes'' # [])"
    by (simp_all add: example_defs)
  have 1: "validate example_definition example_values = Inr True"
    using validate_checks_keys [of example_definition example_values] r q
    by (simp add: example_values_def)
  have 2: "validate example_definition [(''size-in-bytes'', [''value'' \<mapsto> PyInt 3])]
       = Inl (InvalidMISPObject
           (''At least one of the following attributes is required: ''
             @ join '', '' [''filename'', ''md5'']))"
    using validate_checks_keys [of example_definition
        "[(''size-in-bytes'', [''value'' \<mapsto> PyInt 3])]"] r
    by simp
  define dump3 :: pyvalues where "dump3 = [(''md5'', [''value'' \<mapsto> PyNone])]"
  have k: "fst ` set dump3 = {''md5''}"
    by (simp add: dump3_def)
  have a: "\<forall>roo. requiredOneOf example_definition = Some roo \<longrightarrow> roo \<noteq> []
             \<longrightarrow> set roo \<inter> fst ` set dump3 \<noteq> {}"
    using r k by simp
  have b: "set [] \<subseteq> fst ` set dump3"
    by simp
  have c: "''size-in-bytes'' \<notin> fst ` set dump3"
    using k by simp
  have "validate example_definition dump3
           = Inl (InvalidMISPObject (''size-in-bytes'' @ '' is required is required''))"
    by (rule validate_checks_keys [of example_definition dump3, THEN conjunct2, THEN conjunct2,
          THEN spec, THEN spec, THEN spec, THEN mp, THEN mp, THEN mp, THEN mp, OF a q b c])
  then have 3: "validate example_definition [(''md5'', [''value'' \<mapsto> PyNone])]
       = Inl (InvalidMISPObject (''size-in-bytes'' @ '' is required is required''))"
    by (simp only: dump3_def)
  from 1 2 3 show ?thesis by blast
qed

text \<open>
  Claim C2 as stated asks for a key of \<^verbatim>\<open>requiredOneOf\<close> that is present with a value other
  than \<^verbatim>\<open>None\<close>. The mapping below holds \<^verbatim>\<open>'md5'\<close> with the value \<^verbatim>\<open>None\<close> and no
  \<^verbatim>\<open>'filename'\<close>, and \<^verbatim>\<open>_validate\<close> returns \<^verbatim>\<open>True\<close>.
\<close>

theorem validate_nonnull_counterexample:
  "requiredOneOf example_definition = Some [''filename'', ''md5'']
   \<and> \<not> present_with_value example_null_values ''filename''
   \<and> \<not> present_with_value example_null_values ''md5''
   \<and> validate example_definition example_null_values = Inr True"
  by (simp add: example_defs validate_def ebind_def present_with_value_def py_get_def)

section \<open>What the assembly loop emits and writes\<close>


lemma set_type_and_defaults_value [simp]:
  "set_type_and_defaults ad v ''value'' = v ''value''"
  by (simp add: set_type_and_defaults_def Let_def)

lemma py_get_set_type_and_defaults_value [simp]:
  "py_get (set_type_and_defaults ad v) ''value'' = py_get v ''value''"
  by (simp add: py_get_def)

lemma fill_attributes_result:
  "fill_attributes mk d obj vals = (Inr obj', vals') \<Longrightarrow>
     \<exists>new. obj' = obj\<lparr>ObjectAttribute := ObjectAttribute obj @ new\<rparr>
       \<and> map (\<lambda>(k, a). (k, Inr a)) new
           = map (\<lambda>(k, v). (k, mk v)) (filter (\<lambda>(k, v). py_get v ''value'' \<noteq> PyNone) vals')
       \<and> list_all2 (entry_after d) vals vals'"
proof (induction vals arbitrary: obj obj' vals')
  case Nil
  then show ?case by auto
next
  case (Cons e vals)
  obtain k v where e: "e = (k, v)" by (cases e)
  show ?case
  proof (cases "py_get v ''value'' = PyNone")
    case True
    with Cons.prems e obtain rest' where
      r: "fill_attributes mk d obj vals = (Inr obj', rest')" and v': "vals' = (k, v) # rest'"
      by (auto split: prod.splits)
    from Cons.IH [OF r] obtain new where
      n1: "obj' = obj\<lparr>ObjectAttribute := ObjectAttribute obj @ new\<rparr>"
      and n2: "map (\<lambda>(k, a). (k, Inr a)) new
           = map (\<lambda>(k, v). (k, mk v)) (filter (\<lambda>(k, v). py_get v ''value'' \<noteq> PyNone) rest')"
      and n3: "list_all2 (entry_after d) vals rest'" by blast
    have "map (\<lambda>(k, a). (k, Inr a)) new
           = map (\<lambda>(k, v). (k, mk v)) (filter (\<lambda>(k, v). py_get v ''value'' \<noteq> PyNone) vals')"
      using n2 v' True by simp
    moreover have "entry_after d e (k, v)"
      using e True by (simp add: entry_after_def)
    then have "list_all2 (entry_after d) (e # vals) vals'"
      using n3 v' by simp
    ultimately show ?thesis using n1 by blast
  next
    case False
    with Cons.prems e obtain ad a rest' where
      ad: "attributes d k = Some ad" and a: "mk (set_type_and_defaults ad v) = Inr a"
      and r: "fill_attributes mk d (obj\<lparr>ObjectAttribute := ObjectAttribute obj @ [(k, a)]\<rparr>) vals
                = (Inr obj', rest')"
      and v': "vals' = (k, set_type_and_defaults ad v) # rest'"
      by (auto split: prod.splits option.splits sum.splits simp: Let_def)
    from Cons.IH [OF r] obtain new where
      n1: "obj' = obj\<lparr>ObjectAttribute := ObjectAttribute obj @ [(k, a)]\<rparr>
                \<lparr>ObjectAttribute := ObjectAttribute (obj\<lparr>ObjectAttribute := ObjectAttribute obj @ [(k, a)]\<rparr>) @ new\<rparr>"
      and n2: "map (\<lambda>(k, a). (k, Inr a)) new
           = map (\<lambda>(k, v). (k, mk v)) (filter (\<lambda>(k, v). py_get v ''value'' \<noteq> PyNone) rest')"
      and n3: "list_all2 (entry_after d) vals rest'" by blast
    have "obj' = obj\<lparr>ObjectAttribute := ObjectAttribute obj @ ((k, a) # new)\<rparr>"
      using n1 by simp
    moreover have "map (\<lambda>(k, a). (k, Inr a)) ((k, a) # new)
           = map (\<lambda>(k, v). (k, mk v)) (filter (\<lambda>(k, v). py_get v ''value'' \<noteq> PyNone) vals')"
      using n2 v' a False by simp
    moreover have "entry_after d e (k, set_type_and_defaults ad v)"
      using e ad False by (simp add: entry_after_def)
    then have "list_all2 (entry_after d) (e # vals) vals'"
      using n3 v' by simp
    ultimately show ?thesis by blast
  qed
qed

lemma entry_after_keys:
  "list_all2 (entry_after d) vals vals' \<Longrightarrow>
     map fst (filter (\<lambda>(k, v). py_get v ''value'' \<noteq> PyNone) vals')
       = map fst (filter (\<lambda>(k, v). py_get v ''value'' \<noteq> PyNone) vals)"
  by (induction rule: list_all2_induct)
     (auto simp: entry_after_def split: if_splits prod.splits)

lemma entry_after_origin:
  "list_all2 (entry_after d) vals vals' \<Longrightarrow> (k, v') \<in> set vals' \<Longrightarrow>
     \<exists>v. (k, v) \<in> set vals \<and> v' ''value'' = v ''value''"
proof (induction rule: list_all2_induct)
  case Nil
  then show ?case by simp
next
  case (Cons e vals e' vals')
  show ?case
  proof (cases "(k, v') = e'")
    case True
    with Cons.hyps(1) have "(k, snd e) \<in> set (e # vals) \<and> v' ''value'' = snd e ''value''"
      by (cases e) (auto simp: entry_after_def split: if_splits)
    then show ?thesis by blast
  next
    case False
    with Cons.prems Cons.IH show ?thesis by auto
  qed
qed

lemma fill_object_result:
  assumes "fill_object mk self vals strict = (Inr obj, vals')"
  shows "\<exists>new. obj = (new_empty_object self (definition' self))
             \<lparr>ObjectAttribute := new,
              ObjectReference := (if links self = [] then None
                else Some (map (\<lambda>(u, c). \<lparr>referenced_object_uuid = u, comment = c\<rparr>)
                            (links self)))\<rparr>
       \<and> map (\<lambda>(k, a). (k, Inr a)) new
           = map (\<lambda>(k, v). (k, mk v)) (filter (\<lambda>(k, v). py_get v ''value'' \<noteq> PyNone) vals')
       \<and> list_all2 (entry_after (definition' self)) vals vals'"
proof -
  define shell :: "'a misp_object" where "shell =
    (if links self \<noteq> []
     then (new_empty_object self (definition' self))\<lparr>ObjectReference :=
            Some (map (\<lambda>(u, c). \<lparr>referenced_object_uuid = u, comment = c\<rparr>) (links self))\<rparr>
     else new_empty_object self (definition' self))"
  from assms have "fill_attributes mk (definition' self) shell vals = (Inr obj, vals')"
    by (auto simp: fill_object_def Let_def shell_def split: sum.splits if_splits)
  from fill_attributes_result [OF this] obtain new where
    n1: "obj = shell\<lparr>ObjectAttribute := ObjectAttribute shell @ new\<rparr>"
    and n2: "map (\<lambda>(k, a). (k, Inr a)) new
           = map (\<lambda>(k, v). (k, mk v)) (filter (\<lambda>(k, v). py_get v ''value'' \<noteq> PyNone) vals')"
    and n3: "list_all2 (entry_after (definition' self)) vals vals'" by blast
  have "obj = (new_empty_object self (definition' self))
             \<lparr>ObjectAttribute := new,
              ObjectReference := (if links self = [] then None
                else Some (map (\<lambda>(u, c). \<lparr>referenced_object_uuid = u, comment = c\<rparr>)
                            (links self)))\<rparr>"
    using n1 by (simp add: shell_def new_empty_object_def)
  with n2 n3 show ?thesis by blast
qed

text \<open>
  Claim C3. When \<^verbatim>\<open>_fill_object\<close> returns a record, the keys of its attribute list are, in
  order, the keys of the input mapping whose \<^verbatim>\<open>'value'\<close> is not \<^verbatim>\<open>None\<close> (a missing
  \<^verbatim>\<open>'value'\<close> counts as \<^verbatim>\<open>None\<close>); every emitted attribute was built by \<^verbatim>\<open>pymisp\<close> from a
  dictionary that carries the non-null \<^verbatim>\<open>'value'\<close> of its key.
\<close>

theorem fill_object_omits_null_values:
  "fill_object mk self vals strict = (Inr obj, vals') \<Longrightarrow>
     map fst (ObjectAttribute obj)
       = map fst (filter (\<lambda>(k, v). py_get v ''value'' \<noteq> PyNone) vals)
     \<and> (\<forall>(k, a) \<in> set (ObjectAttribute obj).
           \<exists>v v'. (k, v) \<in> set vals \<and> py_get v ''value'' \<noteq> PyNone
                 \<and> v' ''value'' = v ''value'' \<and> mk v' = Inr a)"
proof -
  assume "fill_object mk self vals strict = (Inr obj, vals')"
  from fill_object_result [OF this] obtain new where
    o: "ObjectAttribute obj = new"
    and n2: "map (\<lambda>(k, a). (k, Inr a)) new
           = map (\<lambda>(k, v). (k, mk v)) (filter (\<lambda>(k, v). py_get v ''value'' \<noteq> PyNone) vals')"
    and n3: "list_all2 (entry_after (definition' self)) vals vals'" by auto
  have "map fst new = map fst (map (\<lambda>(k, a). (k, Inr a :: string + 'a)) new)"
    by (simp add: case_prod_unfold comp_def)
  also have "\<dots> = map fst (filter (\<lambda>(k, v). py_get v ''value'' \<noteq> PyNone) vals')"
    unfolding n2 by (simp add: case_prod_unfold comp_def)
  also have "\<dots> = map fst (filter (\<lambda>(k, v). py_get v ''value'' \<noteq> PyNone) vals)"
    using n3 by (rule entry_after_keys)
  finally have keys: "map fst (ObjectAttribute obj)
       = map fst (filter (\<lambda>(k, v). py_get v ''value'' \<noteq> PyNone) vals)"
    using o by simp
  have "\<exists>v v'. (k, v) \<in> set vals \<and> py_get v ''value'' \<noteq> PyNone
                 \<and> v' ''value'' = v ''value'' \<and> mk v' = Inr a"
    if "(k, a) \<in> set new" for k a
  proof -
    from that have "(k, Inr a) \<in> set (map (\<lambda>(k, a). (k, Inr a :: string + 'a)) new)"
      by force
    then have "(k, Inr a) \<in> set (map (\<lambda>(k, v). (k, mk v))
                  (filter (\<lambda>(k, v). py_get v ''value'' \<noteq> PyNone) vals'))"
      using n2 by simp
    then obtain v' where v': "(k, v') \<in> set vals'" "py_get v' ''value'' \<noteq> PyNone" "mk v' = Inr a"
      by auto
    from entry_after_origin [OF n3 v'(1)] obtain v where
      "(k, v) \<in> set vals" "v' ''value'' = v ''value''" by blast
    with v' show ?thesis by (auto simp: py_get_def)
  qed
  with keys o show ?thesis by auto
qed

theorem fill_object_omits_null_values_witness:
  "\<exists>obj vals'. fill_object example_mk example_generator example_values True = (Inr obj, vals')
     \<and> map fst (ObjectAttribute obj) = [''filename'', ''size-in-bytes'']"
proof -
  from example_fills obtain obj vals' where
    f: "fill_object example_mk example_generator example_values True = (Inr obj, vals')"
    by blast
  from fill_object_omits_null_values [OF f]
  have "map fst (ObjectAttribute obj) = [''filename'', ''size-in-bytes'']"
    by (simp add: example_values_def py_get_def)
  with f show ?thesis by (intro exI [of _ obj] exI [of _ vals']) simp
qed

text \<open>
  Claim C8, as amended. The record \<^verbatim>\<open>_fill_object\<close> returns carries the name,
  meta-category, description and version of the definition and the uuid of the generator;
  the shell starts with an empty attribute list. The key \<^verbatim>\<open>'ObjectReference'\<close> is present
  only when the generator has at least one link, and then lists the links in the order of
  the \<^verbatim>\<open>add_link\<close> calls; with no link the record has no such key.
\<close>

theorem fill_object_shell:
  "fill_object mk self vals strict = (Inr obj, vals') \<Longrightarrow>
     o_name obj = d_name (definition' self)
     \<and> o_meta_category obj = d_meta_category (definition' self)
     \<and> o_uuid obj = uuid self
     \<and> o_description obj = d_description (definition' self)
     \<and> o_version obj = d_version (definition' self)
     \<and> ObjectAttribute (new_empty_object self (definition' self) :: 'a misp_object) = []
     \<and> ObjectReference obj =
         (if links self = [] then None
          else Some (map (\<lambda>(u, c). \<lparr>referenced_object_uuid = u, comment = c\<rparr>) (links self)))
     \<and> links (add_link self u c) = links self @ [(u, c)]"
  for obj :: "'a misp_object"
proof -
  assume "fill_object mk self vals strict = (Inr obj, vals')"
  from fill_object_result [OF this] obtain new where
    "obj = (new_empty_object self (definition' self))
             \<lparr>ObjectAttribute := new,
              ObjectReference := (if links self = [] then None
                else Some (map (\<lambda>(u, c). \<lparr>referenced_object_uuid = u, comment = c\<rparr>)
                            (links self)))\<rparr>" by blast
  then show ?thesis
    by (simp add: new_empty_object_def add_link_def)
qed

theorem fill_object_shell_witness:
  "\<exists>obj vals'. fill_object example_mk
      (add_link example_generator ''u-pe'' (Some ''PE indicators'')) example_values True
        = (Inr obj, vals')
     \<and> o_uuid obj = ''u-file''
     \<and> ObjectReference obj
         = Some [\<lparr>referenced_object_uuid = ''u-pe'', comment = Some ''PE indicators''\<rparr>]"
proof -
  from example_linked_fills obtain obj vals' where
    f: "fill_object example_mk (add_link example_generator ''u-pe'' (Some ''PE indicators''))
          example_values True = (Inr obj, vals')"
    by blast
  from fill_object_shell [OF f]
  have "o_uuid obj = ''u-file'' \<and> ObjectReference obj
         = Some [\<lparr>referenced_object_uuid = ''u-pe'', comment = Some ''PE indicators''\<rparr>]"
    by (simp add: add_link_def example_generator_def)
  with f show ?thesis by (intro exI [of _ obj] exI [of _ vals']) simp
qed

text \<open>
  Claim C8 as stated gives every record a references field equal to the link list. For a
  generator without links the record has no \<^verbatim>\<open>'ObjectReference'\<close> key, which is not the
  empty list.
\<close>

theorem fill_object_references_counterexample:
  "links example_generator = []
   \<and> (case fst (fill_object example_mk example_generator example_values True) of
        Inl e \<Rightarrow> False
      | Inr obj \<Rightarrow> ObjectReference obj = None \<and> ObjectReference obj \<noteq> Some [])"
  by (simp add: fill_object_def example_validates Let_def)
     (simp add: example_defs py_get_def Let_def new_empty_object_def)

lemma set_type_and_defaults_type:
  "set_type_and_defaults ad v ''type'' = Some (PyStr (misp_attribute ad))"
  by (simp add: set_type_and_defaults_def Let_def)

lemma set_type_and_defaults_disable_correlation:
  "set_type_and_defaults ad v ''disable_correlation'' =
     (if py_get v ''disable_correlation'' = PyNone
      then Some (json_bool (ad_disable_correlation ad)) else v ''disable_correlation'')"
  by (simp add: set_type_and_defaults_def Let_def py_get_def)

lemma set_type_and_defaults_to_ids:
  "set_type_and_defaults ad v ''to_ids'' =
     (if py_get v ''to_ids'' = PyNone
      then Some (json_bool (ad_to_ids ad)) else v ''to_ids'')"
  by (simp add: set_type_and_defaults_def Let_def py_get_def)

lemma set_type_and_defaults_other:
  "x \<notin> {''type'', ''disable_correlation'', ''to_ids''} \<Longrightarrow>
     set_type_and_defaults ad v x = v x"
  by (simp add: set_type_and_defaults_def Let_def)

text \<open>
  Claim C10. When \<^verbatim>\<open>_fill_object\<close> returns a record, the caller's mapping has the same
  keys in the same order; the dictionary of a key whose \<^verbatim>\<open>'value'\<close> is \<^verbatim>\<open>None\<close> is
  untouched; the dictionary of every other key now holds \<^verbatim>\<open>'type'\<close> from the definition,
  \<^verbatim>\<open>'disable_correlation'\<close> and \<^verbatim>\<open>'to_ids'\<close> from the definition's defaults where
  \<^verbatim>\<open>.get\<close> answered \<^verbatim>\<open>None\<close>, and nothing else changed. So a mapping with a non-null key
  that had no \<^verbatim>\<open>'type'\<close> entry is not the mapping the caller passed in.
\<close>

theorem fill_object_writes_into_values:
  "fill_object mk self vals strict = (Inr obj, vals') \<Longrightarrow>
     list_all2 (\<lambda>(k, v) (k', v'). k' = k \<and>
        (if py_get v ''value'' = PyNone then v' = v
         else \<exists>ad. attributes (definition' self) k = Some ad
            \<and> v' ''type'' = Some (PyStr (misp_attribute ad))
            \<and> v' ''disable_correlation'' =
                 (if py_get v ''disable_correlation'' = PyNone
                  then Some (json_bool (ad_disable_correlation ad))
                  else v ''disable_correlation'')
            \<and> v' ''to_ids'' =
                 (if py_get v ''to_ids'' = PyNone
                  then Some (json_bool (ad_to_ids ad)) else v ''to_ids'')
            \<and> (\<forall>x. x \<notin> {''type'', ''disable_correlation'', ''to_ids''} \<longrightarrow> v' x = v x)))
       vals vals'
     \<and> ((\<exists>(k, v) \<in> set vals. py_get v ''value'' \<noteq> PyNone \<and> v ''type'' = None)
          \<longrightarrow> vals' \<noteq> vals)"
proof -
  assume "fill_object mk self vals strict = (Inr obj, vals')"
  from fill_object_result [OF this]
  have n3: "list_all2 (entry_after (definition' self)) vals vals'" by blast
  let ?R = "(\<lambda>(k, v) (k', v'). k' = k \<and>
        (if py_get v ''value'' = PyNone then v' = v
         else \<exists>ad. attributes (definition' self) k = Some ad
            \<and> v' ''type'' = Some (PyStr (misp_attribute ad))
            \<and> v' ''disable_correlation'' =
                 (if py_get v ''disable_correlation'' = PyNone
                  then Some (json_bool (ad_disable_correlation ad))
                  else v ''disable_correlation'')
            \<and> v' ''to_ids'' =
                 (if py_get v ''to_ids'' = PyNone
                  then Some (json_bool (ad_to_ids ad)) else v ''to_ids'')
            \<and> (\<forall>x. x \<notin> {''type'', ''disable_correlation'', ''to_ids''} \<longrightarrow> v' x = v x)))"
  have imp: "?R e e'" if "entry_after (definition' self) e e'" for e e'
  proof (cases e; cases e')
    fix k v k' v' assume e: "e = (k, v)" "e' = (k', v')"
    show ?thesis
    proof (cases "py_get v ''value'' = PyNone")
      case True
      with that e show ?thesis by (simp add: entry_after_def)
    next
      case False
      with that e obtain ad where ad: "attributes (definition' self) k = Some ad"
        "v' = set_type_and_defaults ad v" "k' = k"
        by (auto simp: entry_after_def)
      show ?thesis
        unfolding e using False ad(1,3)
        by (simp add: ad(2) set_type_and_defaults_type set_type_and_defaults_disable_correlation
            set_type_and_defaults_to_ids set_type_and_defaults_other del: insert_iff)
    qed
  qed
  have R: "list_all2 ?R vals vals'"
    by (rule list_all2_mono [OF n3]) (rule imp)
  have "vals' \<noteq> vals" if "(k, v) \<in> set vals" "py_get v ''value'' \<noteq> PyNone" "v ''type'' = None"
    for k v
  proof
    assume eq: "vals' = vals"
    from that(1) obtain i where i: "i < length vals" "vals ! i = (k, v)"
      by (auto simp: in_set_conv_nth)
    from list_all2_nthD [OF n3 i(1)] eq i(2)
    have "entry_after (definition' self) (k, v) (k, v)" by simp
    with that(2) obtain ad where "v = set_type_and_defaults ad v"
      by (auto simp: entry_after_def)
    then have "v ''type'' = Some (PyStr (misp_attribute ad))"
      using set_type_and_defaults_type [of ad v] by simp
    with that(3) show False by simp
  qed
  with R show ?thesis by blast
qed

theorem fill_object_writes_into_values_witness:
  "\<exists>obj vals'. fill_object example_mk example_generator example_values True = (Inr obj, vals')
     \<and> vals' \<noteq> example_values"
proof -
  from example_fills obtain obj vals' where
    f: "fill_object example_mk example_generator example_values True = (Inr obj, vals')"
    by blast
  have "\<exists>(k, v) \<in> set example_values. py_get v ''value'' \<noteq> PyNone \<and> v ''type'' = None"
    by (simp add: example_values_def py_get_def)
  with fill_object_writes_into_values [OF f] have "vals' \<noteq> example_values" by blast
  with f show ?thesis by (intro exI [of _ obj] exI [of _ vals']) simp
qed

section \<open>Identity of a generator\<close>


lemma fill_object_header:
  assumes "fst (fill_object mk self vals strict) = Inr obj"
  shows "o_uuid obj = uuid self"
    and "ObjectReference obj =
           (if links self = [] then None
            else Some (map (\<lambda>(u, c). \<lparr>referenced_object_uuid = u, comment = c\<rparr>) (links self)))"
proof -
  from assms obtain vals' where "fill_object mk self vals strict = (Inr obj, vals')"
    by (cases "fill_object mk self vals strict") auto
  from fill_object_result [OF this] obtain new where
    "obj = (new_empty_object self (definition' self))
             \<lparr>ObjectAttribute := new,
              ObjectReference := (if links self = [] then None
                else Some (map (\<lambda>(u, c). \<lparr>referenced_object_uuid = u, comment = c\<rparr>)
                            (links self)))\<rparr>" by blast
  then show "o_uuid obj = uuid self"
    and "ObjectReference obj =
           (if links self = [] then None
            else Some (map (\<lambda>(u, c). \<lparr>referenced_object_uuid = u, comment = c\<rparr>) (links self)))"
    by (simp_all add: new_empty_object_def)
qed

lemma ebind_Inr: "ebind m f = Inr y \<longleftrightarrow> (\<exists>x. m = Inr x \<and> f x = Inr y)"
  by (cases m) (auto simp: ebind_def)

lemma ebind_Inl: "ebind m f = Inl e \<longleftrightarrow> m = Inl e \<or> (\<exists>x. m = Inr x \<and> f x = Inl e)"
  by (cases m) (auto simp: ebind_def)

lemma getattr_Inr: "getattr cls attr v = Inr x \<longleftrightarrow> v = Some x"
  by (cases v) (auto simp: getattr_def)


lemma FileObject_dump_uuid:
  "FileObject_dump env self = Inr r \<Longrightarrow> o_uuid r = uuid self"
  unfolding FileObject_dump_def Let_def
  by (auto simp: ebind_Inr split: if_splits dest: fill_object_header(1))

lemma PESectionObject_dump_uuid:
  "PESectionObject_dump env self = Inr r \<Longrightarrow> o_uuid r = uuid self"
  unfolding PESectionObject_dump_def Let_def
  by (auto simp: ebind_Inr split: if_splits dest: fill_object_header(1))

lemma PEObject_dump_uuid:
  "PEObject_dump env self = Inr r \<Longrightarrow> o_uuid r = uuid self"
  unfolding PEObject_dump_def
  by (rule fill_object_header(1))

section \<open>The loop over the sections\<close>

lemma MISPObjectGenerator_init_Inl:
  "MISPObjectGenerator_init env n d = Inl e \<Longrightarrow> \<exists>m. e = OSError m"
  by (auto simp: MISPObjectGenerator_init_def split: option.splits)

lemma PESectionObject_init_Inl:
  "PESectionObject_init env n info bytes = Inl e \<Longrightarrow> \<exists>m. e = OSError m"
  by (auto simp: PESectionObject_init_def ebind_Inl Let_def dest: MISPObjectGenerator_init_Inl)

lemma PESectionObject_init_uuid:
  "PESectionObject_init env n info bytes = Inr (section, n') \<Longrightarrow>
     uuid section = uuid4 env n \<and> n' = Suc n \<and> links section = []"
  by (auto simp: PESectionObject_init_def ebind_Inr Let_def MISPObjectGenerator_init_def
      MISPObjectGenerator.defs split: option.splits if_splits)

lemma sections_loop_Cons:
  "sections_loop env n self pos (s # rest) =
     (if pos < length (pe_sections (pe self))
      then ebind (PESectionObject_init env n s (pe_sections (pe self) ! pos)) (\<lambda>(sec, n').
           ebind (getattr ''PEObject'' ''entrypoint_address'' (entrypoint_address self))
             (\<lambda>entrypoint.
                sections_loop env n' (after_section self pos s sec entrypoint) (Suc pos) rest))
      else Inl (IndexError ''list index out of range''))"
  by (simp add: Let_def after_section_def add_link_def cong: if_cong)

lemma after_section_simps [simp]:
  "entrypoint_address (after_section self pos s sec ep) = entrypoint_address self"
  "pe (after_section self pos s sec ep) = pe self"
  "uuid (after_section self pos s sec ep) = uuid self"
  "definition' (after_section self pos s sec ep) = definition' self"
  "sections (after_section self pos s sec ep) = sections self @ [sec]"
  "links (after_section self pos s sec ep)
     = links self @ [(uuid sec, Some (''Section '' @ str_nat pos @ '' of PE''))]"
  by (simp_all add: after_section_def Let_def add_link_def)

lemma sections_loop_no_AttributeError:
  "entrypoint_address self \<noteq> None \<Longrightarrow>
     sections_loop env n self pos secs \<noteq> Inl (AttributeError m)"
proof (induction secs arbitrary: n self pos)
  case Nil
  then show ?case by simp
next
  case (Cons s secs)
  from Cons.prems obtain v where v: "entrypoint_address self = Some v" by auto
  show ?case
    unfolding sections_loop_Cons
    using Cons.IH v
    by (auto simp: ebind_Inl getattr_def dest!: PESectionObject_init_Inl)
qed

lemma PEObject_generate_attributes_shape:
  "\<exists>self4. pe self4 = pe self0 \<and> uuid self4 = uuid self0
      \<and> definition' self4 = definition' self0 \<and> links self4 = links self0
      \<and> sections self4 = []
      \<and> entrypoint_address self4 =
           (case AddressOfEntryPoint (dump_dict (pe self0)) of
              Some v \<Rightarrow> Some v | None \<Rightarrow> entrypoint_address self0)
      \<and> PEObject_generate_attributes env n self0 =
           (if length (File_Info (dump_dict (pe self0))) = 1
            then Inl (IndexError ''list index out of range'')
            else ebind (sections_loop env n self4 0 (PE_Sections (dump_dict (pe self0))))
                   (\<lambda>(self5, n'). Inr (self5\<lparr>nb_sections := length (sections self5)\<rparr>, n')))"
proof -
  define self1 where "self1 = self0\<lparr>pe_type := (if is_dll (pe self0) then ''dll''
                                     else if is_driver (pe self0) then ''driver''
                                     else if is_exe (pe self0) then ''exe''
                                     else ''unknown''),
                        imphash := get_imphash (pe self0)\<rparr>"
  define self2 where "self2 = (case Debug_information (dump_dict (pe self0)) of
                     Some tds # _ \<Rightarrow>
                       if truthy (py_get tds ''ISO Time'')
                       then self1\<lparr>compilation_timestamp := Some (py_get tds ''ISO Time'')\<rparr>
                       else self1
                   | _ \<Rightarrow> self1)"
  define self3 where "self3 = (case AddressOfEntryPoint (dump_dict (pe self0)) of
                     Some v \<Rightarrow> self2\<lparr>entrypoint_address := Some v\<rparr>
                   | None \<Rightarrow> self2)"
  have p2: "pe self2 = pe self0 \<and> uuid self2 = uuid self0 \<and> definition' self2 = definition' self0
      \<and> links self2 = links self0 \<and> entrypoint_address self2 = entrypoint_address self0"
    by (simp add: self2_def self1_def split: list.splits option.splits)
  have p3: "pe self3 = pe self0 \<and> uuid self3 = uuid self0 \<and> definition' self3 = definition' self0
      \<and> links self3 = links self0 \<and> entrypoint_address self3 =
           (case AddressOfEntryPoint (dump_dict (pe self0)) of
              Some v \<Rightarrow> Some v | None \<Rightarrow> entrypoint_address self0)"
    using p2 by (simp add: self3_def split: option.splits)
  have unfold: "PEObject_generate_attributes env n self0 =
     ebind
           (case File_Info (dump_dict (pe self0)) of
              [] \<Rightarrow> Inr self3
            | [x] \<Rightarrow> Inl (IndexError ''list index out of range'')
            | x # fi # _ \<Rightarrow>
                Inr (self3\<lparr>original_filename := Some (py_get fi ''OriginalFilename''),
                           internal_filename := Some (py_get fi ''InternalName''),
                           file_description := Some (py_get fi ''FileDescription''),
                           file_version := Some (py_get fi ''FileVersion''),
                           lang_id := Some (py_get fi ''LangID''),
                           product_name := Some (py_get fi ''ProductName''),
                           product_version := Some (py_get fi ''ProductVersion''),
                           company_name := Some (py_get fi ''CompanyName''),
                           legal_copyright := Some (py_get fi ''LegalCopyright'')\<rparr>))
           (\<lambda>self4.
              ebind (sections_loop env n (self4\<lparr>sections := []\<rparr>) 0
                       (PE_Sections (dump_dict (pe self0))))
                (\<lambda>(self5, n'). Inr (self5\<lparr>nb_sections := length (sections self5)\<rparr>, n')))"
    unfolding PEObject_generate_attributes_def Let_def self3_def self2_def self1_def ..
  show ?thesis
  proof (cases "File_Info (dump_dict (pe self0))")
    case Nil
    show ?thesis
      by (rule exI [of _ "self3\<lparr>sections := []\<rparr>"])
         (simp add: unfold Nil p3 ebind_def)
  next
    case (Cons x rest)
    show ?thesis
    proof (cases rest)
      case Nil
      with Cons show ?thesis
        by (intro exI [of _ "self3\<lparr>sections := []\<rparr>"]) (simp add: unfold p3 ebind_def)
    next
      case (Cons fi rest')
      show ?thesis
        by (rule exI [of _ "self3\<lparr>original_filename := Some (py_get fi ''OriginalFilename''),
                           internal_filename := Some (py_get fi ''InternalName''),
                           file_description := Some (py_get fi ''FileDescription''),
                           file_version := Some (py_get fi ''FileVersion''),
                           lang_id := Some (py_get fi ''LangID''),
                           product_name := Some (py_get fi ''ProductName''),
                           product_version := Some (py_get fi ''ProductVersion''),
                           company_name := Some (py_get fi ''CompanyName''),
                           legal_copyright := Some (py_get fi ''LegalCopyright''),
                           sections := []\<rparr>"])
           (simp add: unfold \<open>File_Info (dump_dict (pe self0)) = x # rest\<close> Cons p3 ebind_def)
    qed
  qed
qed

lemmas model_defs =
  make_objects_def make_objects_try_def FileObject_init_def FileObject_dump_def
  PEObject_init_def PEObject_generate_attributes_def PEObject_dump_def
  PESectionObject_init_def PESectionObject_dump_def MISPObjectGenerator_init_def
  MISPObjectGenerator.defs FileObject.defs PEObject.defs PESectionObject.defs
  misp_objects_path_def fill_object_def validate_def new_empty_object_def add_link_def
  set_type_and_defaults_def py_get_def ebind_def getattr_def if_hasattr_def
  basename_def str_nat.simps digit_def Let_def
  example_environment_def example_image_def example_section0_def example_section1_def
  plain_definition_def example_mk_def

lemma PESectionObject_init_ok:
  "load_definition env (misp_objects_path @ ''/pe-section/definition.json'') \<noteq> None \<Longrightarrow>
     \<exists>sec. PESectionObject_init env n info bytes = Inr (sec, Suc n)"
  by (auto simp: PESectionObject_init_def MISPObjectGenerator_init_def ebind_def Let_def)

lemma PEObject_init_unfold:
  assumes "pefile_PE env bytes = Inr parsed"
    and "load_definition env (misp_objects_path @ ''/pe/definition.json'') = Some d"
  shows "\<exists>self0. pe self0 = parsed \<and> entrypoint_address self0 = None \<and> links self0 = []
           \<and> uuid self0 = uuid4 env n
           \<and> PEObject_init env n bytes = PEObject_generate_attributes env (Suc n) self0"
proof -
  define self0 where "self0 = MISPObjectGenerator.extend
       \<lparr>definition' = d, uuid = uuid4 env n, links = []\<rparr>
       \<lparr>pe_data = bytes, pe = parsed, pe_type = [], imphash = [],
        compilation_timestamp = None, entrypoint_address = None,
        original_filename = None, internal_filename = None,
        file_description = None, file_version = None, lang_id = None,
        product_name = None, product_version = None, company_name = None,
        legal_copyright = None, entrypoint_section = None, sections = [],
        nb_sections = 0\<rparr>"
  have "pe self0 = parsed \<and> entrypoint_address self0 = None \<and> links self0 = []
           \<and> uuid self0 = uuid4 env n"
    by (simp add: self0_def MISPObjectGenerator.defs PEObject.defs)
  moreover have "PEObject_init env n bytes = PEObject_generate_attributes env (Suc n) self0"
    using assms
    by (simp add: PEObject_init_def MISPObjectGenerator_init_def ebind_def self0_def)
  ultimately show ?thesis by blast
qed

text \<open>
  Claim C9. For an image the parser accepts, the constructor of the executable generator
  raises \<^verbatim>\<open>AttributeError\<close> for \<^verbatim>\<open>entrypoint_address\<close> when the dump has sections and no
  entry point (given that the first section can be built and \<^verbatim>\<open>'File Info'\<close> does not
  fail first); with an entry point, or without sections, it never raises
  \<^verbatim>\<open>AttributeError\<close>.
\<close>

theorem entrypoint_address_read_unconditionally:
  "pefile_PE env bytes = Inr parsed \<Longrightarrow>
   load_definition env (misp_objects_path @ ''/pe/definition.json'') \<noteq> None \<Longrightarrow>
     (AddressOfEntryPoint (dump_dict parsed) = None
        \<and> PE_Sections (dump_dict parsed) \<noteq> [] \<and> pe_sections parsed \<noteq> []
        \<and> length (File_Info (dump_dict parsed)) \<noteq> 1
        \<and> load_definition env (misp_objects_path @ ''/pe-section/definition.json'') \<noteq> None
      \<longrightarrow> PEObject_init env n bytes
            = Inl (AttributeError ([CHR 0x27] @ ''PEObject'' @ [CHR 0x27]
                     @ '' object has no attribute ''
                     @ [CHR 0x27] @ ''entrypoint_address'' @ [CHR 0x27])))
     \<and> (AddressOfEntryPoint (dump_dict parsed) \<noteq> None \<or> PE_Sections (dump_dict parsed) = []
      \<longrightarrow> (\<forall>m. PEObject_init env n bytes \<noteq> Inl (AttributeError m)))"
proof -
  assume parsed: "pefile_PE env bytes = Inr parsed"
    and "load_definition env (misp_objects_path @ ''/pe/definition.json'') \<noteq> None"
  then obtain d where "load_definition env (misp_objects_path @ ''/pe/definition.json'') = Some d"
    by auto
  from PEObject_init_unfold [OF parsed this, of n] obtain self0 where
    s0: "pe self0 = parsed" "entrypoint_address self0 = None"
    and init: "PEObject_init env n bytes = PEObject_generate_attributes env (Suc n) self0"
    by blast
  from PEObject_generate_attributes_shape [of self0 env "Suc n"] obtain self4 where
    s4: "pe self4 = pe self0"
      "entrypoint_address self4 =
           (case AddressOfEntryPoint (dump_dict (pe self0)) of
              Some v \<Rightarrow> Some v | None \<Rightarrow> entrypoint_address self0)"
    and gen: "PEObject_generate_attributes env (Suc n) self0 =
           (if length (File_Info (dump_dict (pe self0))) = 1
            then Inl (IndexError ''list index out of range'')
            else ebind (sections_loop env (Suc n) self4 0 (PE_Sections (dump_dict (pe self0))))
                   (\<lambda>(self5, n'). Inr (self5\<lparr>nb_sections := length (sections self5)\<rparr>, n')))"
    by blast
  have raises: "PEObject_init env n bytes
            = Inl (AttributeError ([CHR 0x27] @ ''PEObject'' @ [CHR 0x27]
                     @ '' object has no attribute ''
                     @ [CHR 0x27] @ ''entrypoint_address'' @ [CHR 0x27]))"
    if a: "AddressOfEntryPoint (dump_dict parsed) = None"
      and b: "PE_Sections (dump_dict parsed) \<noteq> []" and c: "pe_sections parsed \<noteq> []"
      and f: "length (File_Info (dump_dict parsed)) \<noteq> 1"
      and l: "load_definition env (misp_objects_path @ ''/pe-section/definition.json'') \<noteq> None"
  proof -
    from b obtain s rest where secs: "PE_Sections (dump_dict parsed) = s # rest"
      by (cases "PE_Sections (dump_dict parsed)") auto
    from PESectionObject_init_ok [OF l, of "Suc n" s "pe_sections parsed ! 0"] obtain sec where
      sec: "PESectionObject_init env (Suc n) s (pe_sections parsed ! 0) = Inr (sec, Suc (Suc n))"
      by blast
    have e4: "entrypoint_address self4 = None"
      using s4(2) s0 a by simp
    have "sections_loop env (Suc n) self4 0 (s # rest)
            = Inl (AttributeError ([CHR 0x27] @ ''PEObject'' @ [CHR 0x27]
                     @ '' object has no attribute ''
                     @ [CHR 0x27] @ ''entrypoint_address'' @ [CHR 0x27]))"
      unfolding sections_loop_Cons using c s4(1) s0(1) sec e4
      by (simp add: ebind_def getattr_def)
    with init gen secs f s0(1) show ?thesis
      by (simp add: ebind_def)
  qed
  have no_error: "PEObject_init env n bytes \<noteq> Inl (AttributeError m)"
    if "AddressOfEntryPoint (dump_dict parsed) \<noteq> None \<or> PE_Sections (dump_dict parsed) = []"
    for m
  proof -
    have "sections_loop env (Suc n) self4 0 (PE_Sections (dump_dict parsed))
            \<noteq> Inl (AttributeError m)"
    proof (cases "PE_Sections (dump_dict parsed) = []")
      case True
      then show ?thesis by simp
    next
      case False
      with that have "entrypoint_address self4 \<noteq> None"
        using s4(2) s0(1) by auto
      then show ?thesis by (rule sections_loop_no_AttributeError)
    qed
    with init gen s0(1) show ?thesis
      by (auto simp: ebind_Inl split: if_splits)
  qed
  from raises no_error show ?thesis by blast
qed

theorem entrypoint_address_read_unconditionally_witness:
  "pefile_PE example_environment [77, 90, 0]
     = Inr (example_image\<lparr>dump_dict := (dump_dict example_image)\<lparr>AddressOfEntryPoint := None\<rparr>\<rparr>)
   \<and> PEObject_init example_environment 1 [77, 90, 0]
       = Inl (AttributeError ([CHR 0x27] @ ''PEObject'' @ [CHR 0x27]
                     @ '' object has no attribute ''
                     @ [CHR 0x27] @ ''entrypoint_address'' @ [CHR 0x27]))
   \<and> pefile_PE example_environment [77, 90] = Inr example_image
   \<and> PEObject_init example_environment 1 [77, 90] \<noteq> Inl (AttributeError [])"
proof -
  have p1: "pefile_PE example_environment [77, 90, 0]
     = Inr (example_image\<lparr>dump_dict := (dump_dict example_image)\<lparr>AddressOfEntryPoint := None\<rparr>\<rparr>)"
    and p2: "pefile_PE example_environment [77, 90] = Inr example_image"
    and l: "load_definition example_environment (misp_objects_path @ ''/pe/definition.json'')
              \<noteq> None"
    and ls: "load_definition example_environment
               (misp_objects_path @ ''/pe-section/definition.json'') \<noteq> None"
    by (simp_all add: example_environment_def misp_objects_path_def)
  have h1: "AddressOfEntryPoint (dump_dict (example_image\<lparr>dump_dict :=
                (dump_dict example_image)\<lparr>AddressOfEntryPoint := None\<rparr>\<rparr>)) = None
        \<and> PE_Sections (dump_dict (example_image\<lparr>dump_dict :=
                (dump_dict example_image)\<lparr>AddressOfEntryPoint := None\<rparr>\<rparr>)) \<noteq> []
        \<and> pe_sections (example_image\<lparr>dump_dict :=
                (dump_dict example_image)\<lparr>AddressOfEntryPoint := None\<rparr>\<rparr>) \<noteq> []
        \<and> length (File_Info (dump_dict (example_image\<lparr>dump_dict :=
                (dump_dict example_image)\<lparr>AddressOfEntryPoint := None\<rparr>\<rparr>))) \<noteq> 1"
    by (simp add: example_image_def)
  have h2: "AddressOfEntryPoint (dump_dict example_image) \<noteq> None"
    by (simp add: example_image_def)
  from entrypoint_address_read_unconditionally [OF p1 l, of 1] h1 ls
  have r1: "PEObject_init example_environment 1 [77, 90, 0]
       = Inl (AttributeError ([CHR 0x27] @ ''PEObject'' @ [CHR 0x27]
                     @ '' object has no attribute ''
                     @ [CHR 0x27] @ ''entrypoint_address'' @ [CHR 0x27]))"
    by blast
  from entrypoint_address_read_unconditionally [OF p2 l, of 1] h2
  have r2: "PEObject_init example_environment 1 [77, 90] \<noteq> Inl (AttributeError [])"
    by blast
  from p1 p2 r1 r2 show ?thesis by blast
qed

section \<open>Dumps of the example generators\<close>


lemma example_file_init:
  "\<exists>misp_file. FileObject_init example_environment 0 ''/tmp/a.txt'' = Inr (misp_file, Suc 0)"
  by (simp add: model_defs)

lemma example_file_dump:
  "FileObject_init example_environment 0 ''/tmp/a.txt'' = Inr (misp_file, n1) \<Longrightarrow>
     \<exists>r. FileObject_dump example_environment misp_file = Inr r"
  by (auto simp: model_defs)

lemma example_pe_init:
  "\<exists>misp_pe n2. PEObject_init example_environment 1 [77, 90] = Inr (misp_pe, n2)"
  by (simp add: model_defs)

lemma example_pe_dump:
  "PEObject_init example_environment 1 [77, 90] = Inr (misp_pe, n2) \<Longrightarrow>
     \<exists>r. PEObject_dump example_environment misp_pe = Inr r"
  by (auto simp: model_defs)

lemma example_section_init:
  "\<exists>sec n3. PESectionObject_init example_environment 2 example_section0 [] = Inr (sec, n3)"
  by (simp add: model_defs)

lemma example_section_dump:
  "PESectionObject_init example_environment 2 example_section0 [] = Inr (sec, n3) \<Longrightarrow>
     \<exists>r. PESectionObject_dump example_environment sec = Inr r"
  by (auto simp: model_defs)

section \<open>References between the three tiers\<close>


lemma sections_loop_links:
  "sections_loop env n self pos secs = Inr (self', n') \<Longrightarrow>
     \<exists>new. length new = length secs \<and> sections self' = sections self @ new
       \<and> links self' = links self
            @ map (\<lambda>(i, sec). (uuid sec, Some (''Section '' @ str_nat i @ '' of PE'')))
                (enumerate pos new)
       \<and> uuid self' = uuid self"
proof (induction secs arbitrary: n self pos)
  case Nil
  then show ?case by simp
next
  case (Cons s secs)
  from Cons.prems obtain sec n1 ep where
    step: "sections_loop env n1 (after_section self pos s sec ep) (Suc pos) secs = Inr (self', n')"
    unfolding sections_loop_Cons
    by (auto simp: ebind_Inr split: if_splits)
  from Cons.IH [OF step] obtain new where
    n: "length new = length secs"
    "sections self' = sections (after_section self pos s sec ep) @ new"
    "links self' = links (after_section self pos s sec ep)
            @ map (\<lambda>(i, sec). (uuid sec, Some (''Section '' @ str_nat i @ '' of PE'')))
                (enumerate (Suc pos) new)"
    "uuid self' = uuid (after_section self pos s sec ep)"
    by blast
  have "length (sec # new) = length (s # secs)"
    using n(1) by simp
  moreover have "sections self' = sections self @ (sec # new)"
    using n(2) by simp
  moreover have "links self' = links self
            @ map (\<lambda>(i, sec). (uuid sec, Some (''Section '' @ str_nat i @ '' of PE'')))
                (enumerate pos (sec # new))"
    using n(3) by simp
  moreover have "uuid self' = uuid self"
    using n(4) by simp
  ultimately show ?case by blast
qed

lemma PEObject_init_links:
  assumes "PEObject_init env n bytes = Inr (misp_pe, n')"
  shows "links misp_pe
           = map (\<lambda>(i, sec). (uuid sec, Some (''Section '' @ str_nat i @ '' of PE'')))
               (enumerate 0 (sections misp_pe))"
    and "nb_sections misp_pe = length (sections misp_pe)"
    and "uuid misp_pe = uuid4 env n"
proof -
  from assms obtain d parsed where
    d: "load_definition env (misp_objects_path @ ''/pe/definition.json'') = Some d"
    and parsed: "pefile_PE env bytes = Inr parsed"
    by (auto simp: PEObject_init_def MISPObjectGenerator_init_def ebind_Inr
        split: option.splits sum.splits)
  from PEObject_init_unfold [OF parsed d, of n] obtain self0 where
    s0: "links self0 = []" "uuid self0 = uuid4 env n"
    and init: "PEObject_init env n bytes = PEObject_generate_attributes env (Suc n) self0"
    by blast
  from PEObject_generate_attributes_shape [of self0 env "Suc n"] obtain self4 where
    s4: "uuid self4 = uuid self0" "links self4 = links self0" "sections self4 = []"
    and gen: "PEObject_generate_attributes env (Suc n) self0 =
           (if length (File_Info (dump_dict (pe self0))) = 1
            then Inl (IndexError ''list index out of range'')
            else ebind (sections_loop env (Suc n) self4 0 (PE_Sections (dump_dict (pe self0))))
                   (\<lambda>(self5, n'). Inr (self5\<lparr>nb_sections := length (sections self5)\<rparr>, n')))"
    by blast
  from assms init gen obtain self5 where
    loop: "sections_loop env (Suc n) self4 0 (PE_Sections (dump_dict (pe self0))) = Inr (self5, n')"
    and pe5: "misp_pe = self5\<lparr>nb_sections := length (sections self5)\<rparr>"
    by (auto simp: ebind_Inr split: if_splits)
  from sections_loop_links [OF loop] obtain new where
    "sections self5 = sections self4 @ new"
    "links self5 = links self4
            @ map (\<lambda>(i, sec). (uuid sec, Some (''Section '' @ str_nat i @ '' of PE'')))
                (enumerate 0 new)"
    "uuid self5 = uuid self4"
    by blast
  with s0 s4 pe5 show "links misp_pe
           = map (\<lambda>(i, sec). (uuid sec, Some (''Section '' @ str_nat i @ '' of PE'')))
               (enumerate 0 (sections misp_pe))"
    and "nb_sections misp_pe = length (sections misp_pe)"
    and "uuid misp_pe = uuid4 env n"
    by simp_all
qed

lemma FileObject_init_links:
  "FileObject_init env n path = Inr (misp_file, n') \<Longrightarrow> links misp_file = []"
  by (auto simp: FileObject_init_def MISPObjectGenerator_init_def ebind_Inr Let_def
      MISPObjectGenerator.defs FileObject.defs split: option.splits if_splits)

lemma FileObject_dump_references:
  "FileObject_dump env self = Inr r \<Longrightarrow>
     ObjectReference r =
       (if links self = [] then None
        else Some (map (\<lambda>(u, c). \<lparr>referenced_object_uuid = u, comment = c\<rparr>) (links self)))"
  unfolding FileObject_dump_def Let_def
  by (auto simp: ebind_Inr split: if_splits dest: fill_object_header(2))

lemma PEObject_dump_references:
  "PEObject_dump env self = Inr r \<Longrightarrow>
     ObjectReference r =
       (if links self = [] then None
        else Some (map (\<lambda>(u, c). \<lparr>referenced_object_uuid = u, comment = c\<rparr>) (links self)))"
  unfolding PEObject_dump_def
  by (rule fill_object_header(2))

lemma dump_sections_uuid:
  "dump_sections env secs = Inr rs \<Longrightarrow> map o_uuid rs = map uuid secs"
  by (induction secs arbitrary: rs)
     (auto simp: ebind_Inr dest: PESectionObject_dump_uuid)

section \<open>The pipeline and its one handler\<close>




















lemma example_exe_objects:
  "\<exists>f p s. make_objects example_environment 0 ''/tmp/a.exe'' = Inr (f, Some p, Some s)
     \<and> o_uuid p = ''uuid-1'' \<and> map o_uuid s = [''uuid-2'', ''uuid-3'']
     \<and> ObjectReference p
         = Some [\<lparr>referenced_object_uuid = ''uuid-2'', comment = Some ''Section 0 of PE''\<rparr>,
                 \<lparr>referenced_object_uuid = ''uuid-3'', comment = Some ''Section 1 of PE''\<rparr>]"
  by (simp add: model_defs)

section \<open>Uuids and sections of the constructed generators\<close>


lemma PESectionObject_init_fields:
  "PESectionObject_init env n info bytes = Inr (sec, n') \<Longrightarrow>
     uuid sec = uuid4 env n \<and> n' = Suc n \<and> section_info sec = info \<and> s_data sec = bytes"
  by (auto simp: PESectionObject_init_def ebind_Inr Let_def MISPObjectGenerator_init_def
      MISPObjectGenerator.defs PESectionObject.defs split: option.splits if_splits)

lemma FileObject_init_uuid:
  "FileObject_init env n path = Inr (misp_file, n') \<Longrightarrow>
     uuid misp_file = uuid4 env n \<and> n' = Suc n"
  by (auto simp: FileObject_init_def MISPObjectGenerator_init_def ebind_Inr Let_def
      MISPObjectGenerator.defs FileObject.defs split: option.splits if_splits)

lemma sections_loop_sections:
  "sections_loop env n self pos secs = Inr (self', n') \<Longrightarrow>
     \<exists>new. sections self' = sections self @ new
       \<and> map section_info new = secs
       \<and> map s_data new = map (\<lambda>i. pe_sections (pe self) ! i) [pos..<pos + length secs]
       \<and> map uuid new = map (uuid4 env) [n..<n + length secs]
       \<and> n' = n + length secs"
proof (induction secs arbitrary: n self pos)
  case Nil
  then show ?case by simp
next
  case (Cons s secs)
  from Cons.prems obtain sec n1 ep where
    sec: "PESectionObject_init env n s (pe_sections (pe self) ! pos) = Inr (sec, n1)"
    and step: "sections_loop env n1 (after_section self pos s sec ep) (Suc pos) secs = Inr (self', n')"
    unfolding sections_loop_Cons
    by (auto simp: ebind_Inr split: if_splits)
  from PESectionObject_init_fields [OF sec] have f: "uuid sec = uuid4 env n" "n1 = Suc n"
    "section_info sec = s" "s_data sec = pe_sections (pe self) ! pos" by auto
  from Cons.IH [OF step] obtain new where
    n: "sections self' = sections (after_section self pos s sec ep) @ new"
    "map section_info new = secs"
    "map s_data new = map (\<lambda>i. pe_sections (pe (after_section self pos s sec ep)) ! i)
                        [Suc pos..<Suc pos + length secs]"
    "map uuid new = map (uuid4 env) [n1..<n1 + length secs]"
    "n' = n1 + length secs"
    by (elim exE conjE)
  have h1: "sections self' = sections self @ (sec # new)"
    using n(1) by simp
  have h2: "map section_info (sec # new) = s # secs"
    using n(2) f(3) by simp
  have h3: "map s_data (sec # new)
        = map (\<lambda>i. pe_sections (pe self) ! i) [pos..<pos + length (s # secs)]"
    using n(3) f(4) by (simp add: upt_conv_Cons del: upt_Suc)
  have h4: "map uuid (sec # new) = map (uuid4 env) [n..<n + length (s # secs)]"
    using n(4) f(1,2) by (simp add: upt_conv_Cons del: upt_Suc)
  have h5: "n' = n + length (s # secs)"
    using n(5) f(2) by simp
  show ?case
    by (rule exI [of _ "sec # new"], intro conjI) (rule h1 h2 h3 h4 h5)+
qed

lemma PEObject_init_sections:
  assumes "PEObject_init env n bytes = Inr (misp_pe, n')"
  shows "\<exists>parsed. pefile_PE env bytes = Inr parsed
           \<and> map section_info (sections misp_pe) = PE_Sections (dump_dict parsed)
           \<and> map s_data (sections misp_pe)
               = map (\<lambda>i. pe_sections parsed ! i) [0..<length (PE_Sections (dump_dict parsed))]
           \<and> map uuid (sections misp_pe) = map (uuid4 env) [Suc n..<n']
           \<and> n' = Suc n + length (sections misp_pe)"
proof -
  from assms obtain d parsed where
    d: "load_definition env (misp_objects_path @ ''/pe/definition.json'') = Some d"
    and parsed: "pefile_PE env bytes = Inr parsed"
    by (auto simp: PEObject_init_def MISPObjectGenerator_init_def ebind_Inr
        split: option.splits sum.splits)
  from PEObject_init_unfold [OF parsed d, of n] obtain self0 where
    s0: "pe self0 = parsed"
    and init: "PEObject_init env n bytes = PEObject_generate_attributes env (Suc n) self0"
    by blast
  from PEObject_generate_attributes_shape [of self0 env "Suc n"] obtain self4 where
    s4: "pe self4 = pe self0" "sections self4 = []"
    and gen: "PEObject_generate_attributes env (Suc n) self0 =
           (if length (File_Info (dump_dict (pe self0))) = 1
            then Inl (IndexError ''list index out of range'')
            else ebind (sections_loop env (Suc n) self4 0 (PE_Sections (dump_dict (pe self0))))
                   (\<lambda>(self5, n'). Inr (self5\<lparr>nb_sections := length (sections self5)\<rparr>, n')))"
    by blast
  from assms init gen obtain self5 where
    loop: "sections_loop env (Suc n) self4 0 (PE_Sections (dump_dict (pe self0))) = Inr (self5, n')"
    and pe5: "misp_pe = self5\<lparr>nb_sections := length (sections self5)\<rparr>"
    by (auto simp: ebind_Inr split: if_splits)
  from sections_loop_sections [OF loop] obtain new where
    n: "sections self5 = sections self4 @ new"
    "map section_info new = PE_Sections (dump_dict (pe self0))"
    "map s_data new = map (\<lambda>i. pe_sections (pe self4) ! i)
                        [0..<0 + length (PE_Sections (dump_dict (pe self0)))]"
    "map uuid new = map (uuid4 env) [Suc n..<Suc n + length (PE_Sections (dump_dict (pe self0)))]"
    "n' = Suc n + length (PE_Sections (dump_dict (pe self0)))"
    by (elim exE conjE)
  have len: "length new = length (PE_Sections (dump_dict parsed))"
    using n(2) s0 by (metis length_map)
  have h1: "map section_info (sections misp_pe) = PE_Sections (dump_dict parsed)"
    using n(1,2) s4 s0 pe5 by simp
  have h2: "map s_data (sections misp_pe)
               = map (\<lambda>i. pe_sections parsed ! i) [0..<length (PE_Sections (dump_dict parsed))]"
    using n(1,3) s4 s0 pe5 by simp
  have h3: "map uuid (sections misp_pe) = map (uuid4 env) [Suc n..<n']"
    using n(1,4,5) s4 s0 pe5 by simp
  have h4: "n' = Suc n + length (sections misp_pe)"
    using n(1,5) s4 s0 pe5 len by simp
  show ?thesis
    by (rule exI [of _ parsed], intro conjI) (rule parsed h1 h2 h3 h4)+
qed

text \<open>
  Claim C6. Each constructor draws the uuid of its instance once, from the stream of
  \<^verbatim>\<open>uuid4\<close>: the base constructor, the file generator, the section generator, and the
  executable generator, whose later draws are those of its section generators, one each.
  \<^verbatim>\<open>add_link\<close> leaves the uuid alone and no \<^verbatim>\<open>dump\<close> assigns to the generator, so every
  record a generator dumps, before or after a link is added, carries the uuid drawn at
  its construction.
\<close>

theorem uuid_generated_once:
  "(MISPObjectGenerator_init env n object_definition = Inr (g, n')
      \<longrightarrow> uuid g = uuid4 env n \<and> n' = Suc n)
   \<and> (FileObject_init env n path = Inr (misp_file, n1)
      \<longrightarrow> uuid misp_file = uuid4 env n \<and> n1 = Suc n)
   \<and> (PEObject_init env n bytes = Inr (misp_pe, n2)
      \<longrightarrow> uuid misp_pe = uuid4 env n
          \<and> map uuid (sections misp_pe) = map (uuid4 env) [Suc n..<n2]
          \<and> n2 = Suc n + length (sections misp_pe))
   \<and> (PESectionObject_init env n info section_bytes = Inr (s, n3)
      \<longrightarrow> uuid s = uuid4 env n \<and> n3 = Suc n)
   \<and> uuid (add_link self u c) = uuid self
   \<and> (\<forall>file_generator r. FileObject_dump env file_generator = Inr r
         \<longrightarrow> o_uuid r = uuid file_generator)
   \<and> (\<forall>pe_generator r. PEObject_dump env pe_generator = Inr r
         \<longrightarrow> o_uuid r = uuid pe_generator)
   \<and> (\<forall>section_generator r. PESectionObject_dump env section_generator = Inr r
         \<longrightarrow> o_uuid r = uuid section_generator)
   \<and> (\<forall>r r' u' c'. FileObject_dump env misp_file = Inr r
         \<longrightarrow> FileObject_dump env (add_link misp_file u' c') = Inr r'
         \<longrightarrow> FileObject_init env n path = Inr (misp_file, n1)
         \<longrightarrow> o_uuid r = uuid4 env n \<and> o_uuid r' = uuid4 env n)"
proof -
  have 1: "MISPObjectGenerator_init env n object_definition = Inr (g, n')
      \<longrightarrow> uuid g = uuid4 env n \<and> n' = Suc n"
    by (auto simp: MISPObjectGenerator_init_def split: option.splits)
  have 2: "FileObject_init env n path = Inr (misp_file, n1)
      \<longrightarrow> uuid misp_file = uuid4 env n \<and> n1 = Suc n"
    by (auto dest: FileObject_init_uuid)
  have 3: "PEObject_init env n bytes = Inr (misp_pe, n2)
      \<longrightarrow> uuid misp_pe = uuid4 env n
          \<and> map uuid (sections misp_pe) = map (uuid4 env) [Suc n..<n2]
          \<and> n2 = Suc n + length (sections misp_pe)"
  proof
    assume a: "PEObject_init env n bytes = Inr (misp_pe, n2)"
    from PEObject_init_sections [OF a] obtain parsed where
      "map uuid (sections misp_pe) = map (uuid4 env) [Suc n..<n2]"
      "n2 = Suc n + length (sections misp_pe)" by (elim exE conjE)
    with PEObject_init_links(3) [OF a]
    show "uuid misp_pe = uuid4 env n
          \<and> map uuid (sections misp_pe) = map (uuid4 env) [Suc n..<n2]
          \<and> n2 = Suc n + length (sections misp_pe)" by simp
  qed
  have 4: "PESectionObject_init env n info section_bytes = Inr (s, n3)
      \<longrightarrow> uuid s = uuid4 env n \<and> n3 = Suc n"
    by (auto dest: PESectionObject_init_fields)
  have 5: "uuid (add_link self u c) = uuid self"
    by (simp add: add_link_def)
  have 6: "\<forall>file_generator r. FileObject_dump env file_generator = Inr r
         \<longrightarrow> o_uuid r = uuid file_generator"
    by (auto dest: FileObject_dump_uuid)
  have 7: "\<forall>pe_generator r. PEObject_dump env pe_generator = Inr r
         \<longrightarrow> o_uuid r = uuid pe_generator"
    by (auto dest: PEObject_dump_uuid)
  have 8: "\<forall>section_generator r. PESectionObject_dump env section_generator = Inr r
         \<longrightarrow> o_uuid r = uuid section_generator"
    by (auto dest: PESectionObject_dump_uuid)
  have 9: "\<forall>r r' u' c'. FileObject_dump env misp_file = Inr r
         \<longrightarrow> FileObject_dump env (add_link misp_file u' c') = Inr r'
         \<longrightarrow> FileObject_init env n path = Inr (misp_file, n1)
         \<longrightarrow> o_uuid r = uuid4 env n \<and> o_uuid r' = uuid4 env n"
  proof (intro allI impI)
    fix r r' u' c'
    assume a: "FileObject_dump env misp_file = Inr r"
      and b: "FileObject_dump env (add_link misp_file u' c') = Inr r'"
      and i: "FileObject_init env n path = Inr (misp_file, n1)"
    from FileObject_dump_uuid [OF a] FileObject_dump_uuid [OF b] FileObject_init_uuid [OF i]
    show "o_uuid r = uuid4 env n \<and> o_uuid r' = uuid4 env n"
      by (simp add: add_link_def)
  qed
  show ?thesis
    by (rule conjI [OF 1 conjI [OF 2 conjI [OF 3 conjI [OF 4 conjI [OF 5 conjI [OF 6
          conjI [OF 7 conjI [OF 8 9]]]]]]]])
qed

theorem uuid_generated_once_witness:
  "\<exists>g misp_file r1 misp_pe n2 r2 sec n3 r3.
     MISPObjectGenerator_init example_environment 0 ''file/definition.json'' = Inr (g, Suc 0)
     \<and> uuid g = uuid4 example_environment 0
     \<and> FileObject_init example_environment 0 ''/tmp/a.txt'' = Inr (misp_file, Suc 0)
     \<and> uuid misp_file = uuid4 example_environment 0
     \<and> FileObject_dump example_environment misp_file = Inr r1
     \<and> o_uuid r1 = uuid4 example_environment 0
     \<and> PEObject_init example_environment 1 [77, 90] = Inr (misp_pe, n2)
     \<and> uuid misp_pe = uuid4 example_environment 1
     \<and> map uuid (sections misp_pe) = map (uuid4 example_environment) [2..<n2]
     \<and> PEObject_dump example_environment misp_pe = Inr r2
     \<and> o_uuid r2 = uuid misp_pe
     \<and> PESectionObject_init example_environment 2 example_section0 [] = Inr (sec, n3)
     \<and> uuid sec = uuid4 example_environment 2
     \<and> PESectionObject_dump example_environment sec = Inr r3
     \<and> o_uuid r3 = uuid sec"
proof -
  obtain g where g: "MISPObjectGenerator_init example_environment 0 ''file/definition.json''
      = Inr (g, Suc 0)"
    by (simp add: model_defs)
  from example_file_init obtain misp_file where
    f: "FileObject_init example_environment 0 ''/tmp/a.txt'' = Inr (misp_file, Suc 0)"
    by (elim exE)
  from example_file_dump [OF f] obtain r1 where
    d1: "FileObject_dump example_environment misp_file = Inr r1" by (elim exE)
  from example_pe_init obtain misp_pe n2 where
    p: "PEObject_init example_environment 1 [77, 90] = Inr (misp_pe, n2)" by (elim exE)
  from example_pe_dump [OF p] obtain r2 where
    d2: "PEObject_dump example_environment misp_pe = Inr r2" by (elim exE)
  from example_section_init obtain sec n3 where
    s: "PESectionObject_init example_environment 2 example_section0 [] = Inr (sec, n3)"
    by (elim exE)
  from example_section_dump [OF s] obtain r3 where
    d3: "PESectionObject_dump example_environment sec = Inr r3" by (elim exE)
  note t0 = uuid_generated_once [where env = example_environment and n = 0
      and object_definition = "''file/definition.json''" and g = g and n' = "Suc 0"
      and path = "''/tmp/a.txt''" and misp_file = misp_file and ?n1.0 = "Suc 0"]
  note t1 = uuid_generated_once [where env = example_environment and n = 1
      and bytes = "[77, 90]" and misp_pe = misp_pe and ?n2.0 = n2]
  note t2 = uuid_generated_once [where env = example_environment and n = 2
      and info = example_section0 and section_bytes = "[]" and s = sec and ?n3.0 = n3]
  have a: "uuid g = uuid4 example_environment 0" using t0 [THEN conjunct1] g by simp
  have b: "uuid misp_file = uuid4 example_environment 0" using t0 [THEN conjunct2, THEN conjunct1] f by simp
  have c: "o_uuid r1 = uuid4 example_environment 0"
    using t0 [THEN conjunct2, THEN conjunct2, THEN conjunct2, THEN conjunct2, THEN conjunct2, THEN conjunct1] d1 b by simp
  have d: "uuid misp_pe = uuid4 example_environment 1
     \<and> map uuid (sections misp_pe) = map (uuid4 example_environment) [2..<n2]"
    using t1 [THEN conjunct2, THEN conjunct2, THEN conjunct1] p by (simp add: numeral_2_eq_2)
  have e: "o_uuid r2 = uuid misp_pe" using t1 [THEN conjunct2, THEN conjunct2, THEN conjunct2, THEN conjunct2, THEN conjunct2, THEN conjunct2, THEN conjunct1] d2 by simp
  have h: "uuid sec = uuid4 example_environment 2" using t2 [THEN conjunct2, THEN conjunct2, THEN conjunct2, THEN conjunct1] s by simp
  have i: "o_uuid r3 = uuid sec" using t2 [THEN conjunct2, THEN conjunct2, THEN conjunct2, THEN conjunct2, THEN conjunct2, THEN conjunct2, THEN conjunct2, THEN conjunct1] d3 by simp
  show ?thesis
    by (rule exI [of _ g], rule exI [of _ misp_file], rule exI [of _ r1],
        rule exI [of _ misp_pe], rule exI [of _ n2], rule exI [of _ r2],
        rule exI [of _ sec], rule exI [of _ n3], rule exI [of _ r3])
       (simp add: g f d1 p [unfolded One_nat_def] d2 s d3 a b c d e h i)
qed

text \<open>
  Claim C5, as amended. When \<^verbatim>\<open>make_objects\<close> returns the three tiers, the file record has
  exactly one reference, to the uuid of the executable generator with the comment
  \<^verbatim>\<open>PE indicators\<close>. The executable generator holds one section generator per entry of
  the parser's \<^verbatim>\<open>'PE Sections'\<close>, in that order, and there is one section record per entry,
  carrying the uuid of its generator. When the image has at least one section, the
  references of the executable record are, in order, one per section generator, with the
  comment \<^verbatim>\<open>Section i of PE\<close> counting from 0; when it has none, the executable record has
  no \<^verbatim>\<open>'ObjectReference'\<close> key.
\<close>

theorem make_objects_links:
  "make_objects env n path = Inr (file_object, Some pe_object, Some section_records) \<Longrightarrow>
     \<exists>misp_file n1 parsed misp_pe n2.
        FileObject_init env n path = Inr (misp_file, n1)
      \<and> pefile_PE env (f_data misp_file) = Inr parsed
      \<and> PEObject_init env n1 (f_data misp_file) = Inr (misp_pe, n2)
      \<and> map section_info (sections misp_pe) = PE_Sections (dump_dict parsed)
      \<and> length section_records = length (PE_Sections (dump_dict parsed))
      \<and> length section_records = nb_sections misp_pe
      \<and> o_uuid file_object = uuid misp_file \<and> o_uuid pe_object = uuid misp_pe
      \<and> map o_uuid section_records = map uuid (sections misp_pe)
      \<and> ObjectReference file_object
          = Some [\<lparr>referenced_object_uuid = uuid misp_pe, comment = Some ''PE indicators''\<rparr>]
      \<and> ObjectReference pe_object
          = (if PE_Sections (dump_dict parsed) = [] then None
             else Some (map (\<lambda>(i, sec). \<lparr>referenced_object_uuid = uuid sec,
                                         comment = Some (''Section '' @ str_nat i @ '' of PE'')\<rparr>)
                          (enumerate 0 (sections misp_pe))))"
proof -
  assume m: "make_objects env n path = Inr (file_object, Some pe_object, Some section_records)"
  then obtain misp_file n1 where f: "FileObject_init env n path = Inr (misp_file, n1)"
    by (auto simp: make_objects_def ebind_Inr)
  from m f have "make_objects_try env n1 misp_file
                  = Inr (file_object, Some pe_object, Some section_records)"
    by (auto simp: make_objects_def ebind_def split: sum.splits error.splits)
  then obtain misp_pe n2 where p: "PEObject_init env n1 (f_data misp_file) = Inr (misp_pe, n2)"
    and df: "FileObject_dump env (add_link misp_file (uuid misp_pe) (Some ''PE indicators''))
               = Inr file_object"
    and dp: "PEObject_dump env misp_pe = Inr pe_object"
    and ds: "dump_sections env (sections misp_pe) = Inr section_records"
    by (auto simp: make_objects_try_def ebind_Inr Let_def)
  from PEObject_init_sections [OF p] obtain parsed where
    parsed: "pefile_PE env (f_data misp_file) = Inr parsed"
    and infos: "map section_info (sections misp_pe) = PE_Sections (dump_dict parsed)"
    by (elim exE conjE)
  have lf: "links (add_link misp_file (uuid misp_pe) (Some ''PE indicators''))
              = [(uuid misp_pe, Some ''PE indicators'')]"
    using FileObject_init_links [OF f] by (simp add: add_link_def)
  have 1: "ObjectReference file_object
          = Some [\<lparr>referenced_object_uuid = uuid misp_pe, comment = Some ''PE indicators''\<rparr>]"
    using FileObject_dump_references [OF df] lf by simp
  have 2: "o_uuid file_object = uuid misp_file"
    using FileObject_dump_uuid [OF df] by (simp add: add_link_def)
  have 3: "o_uuid pe_object = uuid misp_pe"
    using dp by (rule PEObject_dump_uuid)
  have 4: "map o_uuid section_records = map uuid (sections misp_pe)"
    using ds by (rule dump_sections_uuid)
  then have len: "length section_records = length (sections misp_pe)"
    by (metis length_map)
  then have 5: "length section_records = nb_sections misp_pe"
    using PEObject_init_links(2) [OF p] by simp
  have len': "length (sections misp_pe) = length (PE_Sections (dump_dict parsed))"
    using infos by (metis length_map)
  have 7: "length section_records = length (PE_Sections (dump_dict parsed))"
    using len len' by simp
  have e: "(sections misp_pe = []) = (PE_Sections (dump_dict parsed) = [])"
    using len' by (metis length_0_conv)
  have 6: "ObjectReference pe_object
          = (if PE_Sections (dump_dict parsed) = [] then None
             else Some (map (\<lambda>(i, sec). \<lparr>referenced_object_uuid = uuid sec,
                                         comment = Some (''Section '' @ str_nat i @ '' of PE'')\<rparr>)
                          (enumerate 0 (sections misp_pe))))"
    using PEObject_dump_references [OF dp] PEObject_init_links(1) [OF p] e
    by (simp add: case_prod_unfold comp_def enumerate_eq_zip)
  show ?thesis
    by (rule exI [of _ misp_file], rule exI [of _ n1], rule exI [of _ parsed],
        rule exI [of _ misp_pe], rule exI [of _ n2], intro conjI)
       (rule f parsed p infos 7 5 2 3 4 1 6)+
qed

theorem make_objects_links_witness:
  "\<exists>f p s. make_objects example_environment 0 ''/tmp/a.exe'' = Inr (f, Some p, Some s)
     \<and> ObjectReference f
         = Some [\<lparr>referenced_object_uuid = o_uuid p, comment = Some ''PE indicators''\<rparr>]
     \<and> length s = 2
     \<and> o_uuid p = ''uuid-1'' \<and> map o_uuid s = [''uuid-2'', ''uuid-3'']
     \<and> ObjectReference p
         = Some [\<lparr>referenced_object_uuid = ''uuid-2'', comment = Some ''Section 0 of PE''\<rparr>,
                 \<lparr>referenced_object_uuid = ''uuid-3'', comment = Some ''Section 1 of PE''\<rparr>]"
proof -
  from example_exe_objects obtain f p s where
    m: "make_objects example_environment 0 ''/tmp/a.exe'' = Inr (f, Some p, Some s)"
    and c: "o_uuid p = ''uuid-1''" "map o_uuid s = [''uuid-2'', ''uuid-3'']"
      "ObjectReference p
         = Some [\<lparr>referenced_object_uuid = ''uuid-2'', comment = Some ''Section 0 of PE''\<rparr>,
                 \<lparr>referenced_object_uuid = ''uuid-3'', comment = Some ''Section 1 of PE''\<rparr>]"
    by (elim exE conjE)
  from make_objects_links [OF m] obtain misp_file n1 parsed misp_pe n2 where
    "FileObject_init example_environment 0 ''/tmp/a.exe'' = Inr (misp_file, n1)"
    "pefile_PE example_environment (f_data misp_file) = Inr parsed"
    "PEObject_init example_environment n1 (f_data misp_file) = Inr (misp_pe, n2)"
    "map section_info (sections misp_pe) = PE_Sections (dump_dict parsed)"
    "length s = length (PE_Sections (dump_dict parsed))"
    "length s = nb_sections misp_pe"
    "o_uuid f = uuid misp_file"
    and u: "o_uuid p = uuid misp_pe"
    and "map o_uuid s = map uuid (sections misp_pe)"
    and r: "ObjectReference f
          = Some [\<lparr>referenced_object_uuid = uuid misp_pe, comment = Some ''PE indicators''\<rparr>]"
    and "ObjectReference p
          = (if PE_Sections (dump_dict parsed) = [] then None
             else Some (map (\<lambda>(i, sec). \<lparr>referenced_object_uuid = uuid sec,
                                         comment = Some (''Section '' @ str_nat i @ '' of PE'')\<rparr>)
                          (enumerate 0 (sections misp_pe))))"
    by (elim exE conjE)
  have h: "ObjectReference f
         = Some [\<lparr>referenced_object_uuid = o_uuid p, comment = Some ''PE indicators''\<rparr>]"
    using r u by simp
  have "length (map o_uuid s) = 2" using c(2) by simp
  then have l2: "length s = 2" by simp
  show ?thesis
    by (rule exI [of _ f], rule exI [of _ p], rule exI [of _ s]) (simp add: m c h l2)
qed

text \<open>
  Claim C5 as stated gives the executable record a reference list with as many entries as
  the image has sections. For an image without sections the record has no
  \<^verbatim>\<open>'ObjectReference'\<close> key, which is not the empty list.
\<close>

theorem make_objects_no_sections_counterexample:
  "PE_Sections (dump_dict (example_image\<lparr>dump_dict :=
        (dump_dict example_image)\<lparr>PE_Sections := []\<rparr>, pe_sections := []\<rparr>)) = []
   \<and> (case make_objects example_environment_no_sections 0 ''/tmp/a.exe'' of
        Inr (file_object, Some pe_object, Some section_records) \<Rightarrow>
          section_records = [] \<and> ObjectReference pe_object = None
          \<and> ObjectReference pe_object \<noteq> Some []
      | _ \<Rightarrow> False)"
  by (simp add: model_defs example_environment_no_sections_def)

section \<open>Entropy under exact arithmetic\<close>

lemma counter_add_keys: "fst ` set (counter_add b occ) = insert b (fst ` set occ)"
proof (induction occ)
  case Nil
  then show ?case by simp
next
  case (Cons e occ)
  obtain k c where e: "e = (k, c)" by (cases e)
  show ?case
  proof (cases "k = b")
    case True
    with e show ?thesis by auto
  next
    case False
    with e Cons.IH show ?thesis by auto
  qed
qed

lemma counter_add_distinct:
  "distinct (map fst occ) \<Longrightarrow> distinct (map fst (counter_add b occ))"
proof (induction occ)
  case Nil
  then show ?case by simp
next
  case (Cons e occ)
  obtain k c where e: "e = (k, c)" by (cases e)
  show ?case
  proof (cases "k = b")
    case True
    with e Cons.prems show ?thesis by simp
  next
    case False
    have "k \<notin> fst ` set (counter_add b occ)"
      using Cons.prems e False by (simp add: counter_add_keys)
    with e False Cons show ?thesis by simp
  qed
qed

lemma counter_add_sum:
  "sum_list (map snd (counter_add b occ)) = Suc (sum_list (map snd occ))"
  by (induction occ) auto

lemma counter_add_pos:
  "\<forall>c \<in> set (map snd occ). 0 < c \<Longrightarrow> \<forall>c \<in> set (map snd (counter_add b occ)). 0 < c"
proof (induction occ)
  case Nil
  then show ?case by simp
next
  case (Cons e occ)
  obtain k c where e: "e = (k, c)" by (cases e)
  show ?case
  proof (cases "k = b")
    case True
    with e Cons.prems show ?thesis by simp
  next
    case False
    with e Cons show ?thesis by simp
  qed
qed

lemma Counter_foldl:
  "distinct (map fst occ) \<Longrightarrow> \<forall>c \<in> set (map snd occ). 0 < c \<Longrightarrow>
     distinct (map fst (foldl (\<lambda>occurences b. counter_add b occurences) occ data))
     \<and> (\<forall>c \<in> set (map snd (foldl (\<lambda>occurences b. counter_add b occurences) occ data)). 0 < c)
     \<and> sum_list (map snd (foldl (\<lambda>occurences b. counter_add b occurences) occ data))
         = sum_list (map snd occ) + length data"
proof (induction data arbitrary: occ)
  case Nil
  then show ?case by simp
next
  case (Cons b data)
  from Cons.IH [OF counter_add_distinct [OF Cons.prems(1)] counter_add_pos [OF Cons.prems(2)], of b]
  show ?case by (simp add: counter_add_sum)
qed

lemma Counter_props:
  "distinct (map fst (Counter data))"
  "\<forall>c \<in> set (map snd (Counter data)). 0 < c"
  "sum_list (map snd (Counter data)) = length data"
  using Counter_foldl [of "[]" data] by (simp_all add: Counter_def)

lemma Counter_length: "length (Counter data) \<le> 256"
proof -
  have "length (Counter data) = card (set (map fst (Counter data)))"
    using Counter_props(1) [of data] by (metis distinct_card length_map)
  also have "\<dots> \<le> card (UNIV :: byte set)"
    by (rule card_mono) auto
  also have "\<dots> = 256"
    by (simp add: card_word)
  finally show ?thesis .
qed

lemma foldl_minus:
  "foldl (\<lambda>entropy x. entropy - f x) a xs = a - sum_list (map f xs)" for a :: real
  by (induction xs arbitrary: a) auto

lemma gibbs_term:
  fixes p k :: real
  assumes "0 < p" "0 < k"
  shows "- (p * ln p) \<le> p * ln k + (1 / k - p)"
proof -
  have "ln (1 / (k * p)) \<le> 1 / (k * p) - 1"
    using assms by (intro ln_le_minus_one) simp
  then have "p * ln (1 / (k * p)) \<le> p * (1 / (k * p) - 1)"
    using assms by (simp add: mult_left_mono)
  moreover have "ln (1 / (k * p)) = - ln k - ln p"
    using assms by (simp add: ln_div ln_mult)
  moreover have "p * (1 / (k * p) - 1) = 1 / k - p"
    using assms by (simp add: field_simps)
  ultimately show ?thesis by (simp add: algebra_simps)
qed


lemma sum_list_fraction:
  "sum_list (map (\<lambda>x. real x / n) xs) = real (sum_list xs) / n"
  by (induction xs) (auto simp: add_divide_distrib)

text \<open>
  With the exact division of the model and an environment whose \<^verbatim>\<open>math.log\<close> is the exact
  logarithm, the entropy of any buffer lies between 0 and 8. The floats of the source
  round each quotient, logarithm and difference; this lemma does not speak about them.
\<close>

lemma entropy_H_exact_log_bounds:
  assumes exact: "\<forall>x. 0 < x \<longrightarrow> math_log env x 2 = log 2 x"
  shows "0 \<le> entropy_H env data \<and> entropy_H env data \<le> 8"
proof (cases "data = []")
  case True
  then show ?thesis by (simp add: entropy_H_def)
next
  case False
  define n where "n = real (length data)"
  define xs where "xs = map snd (Counter data)"
  define p where "p = (\<lambda>x :: nat. real x / n)"
  define k where "k = real (length xs)"
  have n: "0 < n" using False by (simp add: n_def)
  have pos: "\<And>x. x \<in> set xs \<Longrightarrow> 0 < x"
    using Counter_props(2) [of data] unfolding xs_def by blast
  have total: "sum_list xs = length data"
    using Counter_props(3) [of data] by (simp add: xs_def)
  have "xs \<noteq> []" using total False by auto
  then have k1: "1 \<le> k" by (cases xs) (simp_all add: k_def)
  have k256: "k \<le> 256"
    using Counter_length [of data] by (simp add: k_def xs_def)
  have p_pos: "0 < p x" if "x \<in> set xs" for x
    using pos [OF that] n by (simp add: p_def)
  have p_le: "\<And>x. x \<in> set xs \<Longrightarrow> p x \<le> 1"
  proof -
    fix x assume "x \<in> set xs"
    then have "x \<le> sum_list xs" by (rule member_le_sum_list) simp
    then show "p x \<le> 1" using n total by (simp add: p_def n_def)
  qed
  have p_sum: "sum_list (map p xs) = 1"
    using n total by (simp add: p_def sum_list_fraction n_def)
  have H: "entropy_H env data = - sum_list (map (\<lambda>x. p x * log 2 (p x)) xs)"
  proof -
    have "entropy_H env data = - sum_list (map (\<lambda>x. p x * math_log env (p x) 2) xs)"
      using False by (simp add: entropy_H_def Let_def foldl_minus xs_def p_def n_def)
    also have "map (\<lambda>x. p x * math_log env (p x) 2) xs = map (\<lambda>x. p x * log 2 (p x)) xs"
      using exact p_pos by simp
    finally show ?thesis .
  qed
  have lower: "sum_list (map (\<lambda>x. p x * log 2 (p x)) xs) \<le> 0"
  proof -
    have "sum_list (map (\<lambda>x. p x * log 2 (p x)) xs) \<le> sum_list (map (\<lambda>x. 0) xs)"
    proof (rule sum_list_mono)
      fix x assume x: "x \<in> set xs"
      have "log 2 (p x) \<le> 0" using p_pos [OF x] p_le [OF x] by simp
      then show "p x * log 2 (p x) \<le> 0"
        using p_pos [OF x] by (simp add: mult_nonneg_nonpos)
    qed
    then show ?thesis by simp
  qed
  have upper: "- sum_list (map (\<lambda>x. p x * ln (p x)) xs) \<le> ln k"
  proof -
    have "- sum_list (map (\<lambda>x. p x * ln (p x)) xs)
            = sum_list (map (\<lambda>x. - (p x * ln (p x))) xs)"
      by (induction xs) auto
    also have "\<dots> \<le> sum_list (map (\<lambda>x. p x * ln k + (1 / k - p x)) xs)"
    proof (rule sum_list_mono)
      fix x assume x: "x \<in> set xs"
      show "- (p x * ln (p x)) \<le> p x * ln k + (1 / k - p x)"
        using p_pos [OF x] k1 by (intro gibbs_term) simp_all
    qed
    also have "\<dots> = ln k * sum_list (map p xs) + (sum_list (map (\<lambda>x. 1 / k) xs)
                        - sum_list (map p xs))"
      by (induction xs) (auto simp: algebra_simps)
    also have "sum_list (map (\<lambda>x. 1 / k) xs) = 1"
      using \<open>xs \<noteq> []\<close> by (simp add: sum_list_triv k_def)
    finally show ?thesis using p_sum by simp
  qed
  have "entropy_H env data = - sum_list (map (\<lambda>x. p x * ln (p x)) xs) / ln 2"
  proof -
    have "sum_list (map (\<lambda>x. p x * log 2 (p x)) xs)
            = sum_list (map (\<lambda>x. p x * ln (p x)) xs) / ln 2"
      by (induction xs) (auto simp: log_def add_divide_distrib)
    with H show ?thesis by simp
  qed
  also have "\<dots> \<le> ln k / ln 2"
  proof -
    have "(- sum_list (map (\<lambda>x. p x * ln (p x)) xs)) / ln 2 \<le> ln k / ln 2"
      by (rule divide_right_mono [OF upper]) simp
    then show ?thesis by simp
  qed
  also have "\<dots> = log 2 k" by (simp add: log_def)
  also have "\<dots> \<le> log 2 256"
    using k1 k256 by simp
  also have "log 2 256 = 8"
  proof -
    have "(256 :: real) = 2 powr 8" by simp
    then show ?thesis by (simp only: log_powr_cancel)
  qed
  finally have "entropy_H env data \<le> 8" .
  moreover have "0 \<le> entropy_H env data" using H lower by simp
  ultimately show ?thesis by simp
qed

end
